theory Spec2Isabelle
  imports Complex_Main "HOL-Library.Sublist"
begin

section \<open>JavaScript values used by the budget check\<close>

text \<open>
  The program is one JavaScript module, present in two revisions:
  \<^verbatim>\<open>src/lib/index.js\<close> and a second revision of it kept as \<^verbatim>\<open>unnamed/part_000\<close>.
  Definitions taken from the second revision carry the suffix \<open>_p0\<close>; a definition
  without suffix that both revisions use has the same source text in both.

  Numbers. A JavaScript number is an IEEE double. The model keeps the three kinds of
  non-finite value and takes the finite ones as exact reals: the sign of a difference of
  two finite doubles is the sign of the exact difference, which is all the classification
  looks at; the rounding error of double arithmetic itself is not modelled.
  \<open>undefined\<close> is \<open>None\<close> of an option type; a property that is absent and a property
  holding \<open>undefined\<close> read the same in every expression of the program.
\<close>

datatype jsnum = NaN | PInf | NInf | Fin real

text \<open>\<open>ToNumber\<close> of a value that is a number or \<open>undefined\<close>.\<close>

definition toNumber :: "jsnum option \<Rightarrow> jsnum" where
  "toNumber v = (case v of None \<Rightarrow> NaN | Some n \<Rightarrow> n)"

text \<open>The binary \<open>-\<close> operator on numbers.\<close>

fun js_sub :: "jsnum \<Rightarrow> jsnum \<Rightarrow> jsnum" where
  "js_sub (Fin a) (Fin b) = Fin (a - b)"
| "js_sub NaN y = NaN"
| "js_sub x NaN = NaN"
| "js_sub PInf PInf = NaN"
| "js_sub NInf NInf = NaN"
| "js_sub PInf y = PInf"
| "js_sub NInf y = NInf"
| "js_sub (Fin a) PInf = NInf"
| "js_sub (Fin a) NInf = PInf"

text \<open>The comparison \<open>x > 0\<close>.\<close>

fun js_gt_zero :: "jsnum \<Rightarrow> bool" where
  "js_gt_zero (Fin a) = (a > 0)"
| "js_gt_zero PInf = True"
| "js_gt_zero NInf = False"
| "js_gt_zero NaN = False"

text \<open>Division by the positive constant of the program, \<open>x / 1024\<close>.\<close>

fun js_div_1024 :: "jsnum \<Rightarrow> jsnum" where
  "js_div_1024 (Fin a) = Fin (a / 1024)"
| "js_div_1024 x = x"

text \<open>\<open>Math.round\<close>: the nearest integer, a tie going up.\<close>

fun Math_round :: "jsnum \<Rightarrow> jsnum" where
  "Math_round (Fin x) = Fin (of_int \<lfloor>x + 1 / 2\<rfloor>)"
| "Math_round x = x"

text \<open>\<open>ToBoolean\<close> on numbers, on strings, and on either when it may be \<open>undefined\<close>.\<close>

fun truthy_num :: "jsnum \<Rightarrow> bool" where
  "truthy_num NaN = False"
| "truthy_num (Fin a) = (a \<noteq> 0)"
| "truthy_num x = True"

definition truthy :: "jsnum option \<Rightarrow> bool" where
  "truthy v = (case v of None \<Rightarrow> False | Some n \<Rightarrow> truthy_num n)"

definition truthy_str :: "string option \<Rightarrow> bool" where
  "truthy_str v = (case v of None \<Rightarrow> False | Some s \<Rightarrow> s \<noteq> [])"

subsection \<open>Numbers to strings\<close>

text \<open>
  \<open>Number::toString\<close>, as a template literal and \<open>+ "kb"\<close> apply it. Exact for \<open>NaN\<close>, the
  infinities and every integer of magnitude below \<open>10^21\<close>, which covers each number the
  program prints after \<open>Math.round\<close>. For a finite value with a fractional part the model
  writes the decimal expansion (at most 20 places), which is JavaScript's output whenever
  that expansion is the shortest text identifying the double.
\<close>

definition digit_char :: "nat \<Rightarrow> char" where
  "digit_char d = ''0123456789'' ! d"

fun show_nat :: "nat \<Rightarrow> string" where
  "show_nat n =
     (if n < 10 then [digit_char n] else show_nat (n div 10) @ [digit_char (n mod 10)])"

declare show_nat.simps [simp del]

fun frac_digits :: "nat \<Rightarrow> real \<Rightarrow> string" where
  "frac_digits 0 x = []"
| "frac_digits (Suc k) x =
     (if x = 0 then []
      else digit_char (nat \<lfloor>x * 10\<rfloor>) # frac_digits k (x * 10 - of_int \<lfloor>x * 10\<rfloor>))"

fun numToString :: "jsnum \<Rightarrow> string" where
  "numToString NaN = ''NaN''"
| "numToString PInf = ''Infinity''"
| "numToString NInf = ''-Infinity''"
| "numToString (Fin x) =
     (if x < 0 then ''-'' else []) @ show_nat (nat \<lfloor>\<bar>x\<bar>\<rfloor>) @
     (if \<bar>x\<bar> = of_int \<lfloor>\<bar>x\<bar>\<rfloor> then []
      else ''.'' @ frac_digits 20 (\<bar>x\<bar> - of_int \<lfloor>\<bar>x\<bar>\<rfloor>))"

definition toString :: "jsnum option \<Rightarrow> string" where
  "toString v = (case v of None \<Rightarrow> ''undefined'' | Some n \<Rightarrow> numToString n)"

subsection \<open>Strings to numbers\<close>

text \<open>
  \<open>ToNumber\<close> on a string (the \<open>StringNumericLiteral\<close> grammar), which the \<open>-\<close> operator
  applies to its right operand in \<open>requestCount - countOverBudget.split(" requests")[0]\<close>.
  Strings are byte strings here; white space is the ASCII part of the grammar's
  \<open>StrWhiteSpaceChar\<close>.
\<close>

definition isWhiteSpace :: "char \<Rightarrow> bool" where
  "isWhiteSpace c =
     (c \<in> set [CHR 0x09, CHR 0x0A, CHR 0x0B, CHR 0x0C, CHR 0x0D, CHR '' ''])"

definition trim :: "string \<Rightarrow> string" where
  "trim s = rev (dropWhile isWhiteSpace (rev (dropWhile isWhiteSpace s)))"

definition isDigit :: "char \<Rightarrow> bool" where
  "isDigit c = (c \<in> set ''0123456789'')"

definition digit_index :: "string \<Rightarrow> char \<Rightarrow> nat option" where
  "digit_index alphabet c =
     (if c \<in> set alphabet then Some (length (takeWhile (\<lambda>d. d \<noteq> c) alphabet)) else None)"

fun radix_value :: "nat \<Rightarrow> string list \<Rightarrow> nat \<Rightarrow> string \<Rightarrow> nat option" where
  "radix_value b alphabets acc [] = Some acc"
| "radix_value b alphabets acc (c # cs) =
     (case List.map_filter (\<lambda>a. digit_index a c) alphabets of
        [] \<Rightarrow> None
      | d # _ \<Rightarrow> radix_value b alphabets (acc * b + d) cs)"

definition decimal_value :: "string \<Rightarrow> nat" where
  "decimal_value ds =
     (case radix_value 10 [''0123456789''] 0 ds of None \<Rightarrow> 0 | Some n \<Rightarrow> n)"

definition nonDecimalLiteral :: "string \<Rightarrow> jsnum option" where
  "nonDecimalLiteral s =
     (case s of
        z # p # ds \<Rightarrow>
          if z \<noteq> CHR ''0'' \<or> ds = [] then None
          else if p \<in> set ''xX'' then
            Some (case radix_value 16 [''0123456789abcdef'', ''0123456789ABCDEF''] 0 ds of
                    None \<Rightarrow> NaN | Some n \<Rightarrow> Fin (of_nat n))
          else if p \<in> set ''oO'' then
            Some (case radix_value 8 [''01234567''] 0 ds of
                    None \<Rightarrow> NaN | Some n \<Rightarrow> Fin (of_nat n))
          else if p \<in> set ''bB'' then
            Some (case radix_value 2 [''01''] 0 ds of
                    None \<Rightarrow> NaN | Some n \<Rightarrow> Fin (of_nat n))
          else None
      | _ \<Rightarrow> None)"

definition exponentPart :: "string \<Rightarrow> int option" where
  "exponentPart s =
     (case s of
        [] \<Rightarrow> Some 0
      | e # r \<Rightarrow>
          if e \<notin> set ''eE'' then None
          else (let neg = (r \<noteq> [] \<and> hd r = CHR ''-'');
                    ds = (if r \<noteq> [] \<and> hd r \<in> set ''+-'' then tl r else r)
                in if ds = [] \<or> \<not> list_all isDigit ds then None
                   else Some (if neg then - int (decimal_value ds)
                              else int (decimal_value ds))))"

definition unsignedDecimalLiteral :: "string \<Rightarrow> real option" where
  "unsignedDecimalLiteral u =
     (let ip = takeWhile isDigit u;
          r1 = dropWhile isDigit u;
          fp = (if r1 \<noteq> [] \<and> hd r1 = CHR ''.'' then takeWhile isDigit (tl r1) else []);
          r2 = (if r1 \<noteq> [] \<and> hd r1 = CHR ''.'' then dropWhile isDigit (tl r1) else r1)
      in if ip = [] \<and> fp = [] then None
         else (case exponentPart r2 of
                 None \<Rightarrow> None
               | Some e \<Rightarrow>
                   Some (if int (length fp) \<le> e
                         then of_nat (decimal_value (ip @ fp)) * 10 ^ nat (e - int (length fp))
                         else of_nat (decimal_value (ip @ fp))
                              / 10 ^ nat (int (length fp) - e))))"

definition decimalLiteral :: "string \<Rightarrow> jsnum" where
  "decimalLiteral s =
     (let neg = (s \<noteq> [] \<and> hd s = CHR ''-'');
          u = (if s \<noteq> [] \<and> hd s \<in> set ''+-'' then tl s else s)
      in if u = ''Infinity'' then (if neg then NInf else PInf)
         else (case unsignedDecimalLiteral u of
                 None \<Rightarrow> NaN
               | Some x \<Rightarrow> Fin (if neg then - x else x)))"

definition stringToNumber :: "string \<Rightarrow> jsnum" where
  "stringToNumber s =
     (let t = trim s
      in if t = [] then Fin 0
         else (case nonDecimalLiteral t of
                 Some n \<Rightarrow> n
               | None \<Rightarrow> decimalLiteral t))"

text \<open>
  \<open>String.prototype.split\<close> with a separator that is a non-empty string; the program
  calls it with \<open>" requests"\<close> only.
\<close>

fun split_from :: "string \<Rightarrow> string \<Rightarrow> string \<Rightarrow> string list" where
  "split_from sep acc [] = [rev acc]"
| "split_from sep acc (c # cs) =
     (if prefix sep (c # cs)
      then rev acc # split_from sep [] (drop (length sep - 1) cs)
      else split_from sep (c # acc) cs)"

definition js_split :: "string \<Rightarrow> string \<Rightarrow> string list" where
  "js_split sep s = split_from sep [] s"

section \<open>Data: the report, the budgets, the outside world\<close>

text \<open>
  One row of the \<open>performance-budget\<close> audit's table. The two over-budget fields are
  written by the audit engine, or are \<open>undefined\<close>. \<open>item_size\<close> is the property \<open>size\<close>
  and, below, \<open>audit_id\<close> the property \<open>id\<close>: both names are taken in HOL.
\<close>

record item =
  label :: string
  requestCount :: jsnum
  item_size :: jsnum
  sizeOverBudget :: "jsnum option"
  countOverBudget :: "string option"

text \<open>
  An audit object. \<open>audit_id\<close>, \<open>numericValue\<close> and \<open>details\<close> come from the report (an
  entry of \<open>data.audits\<close>); in \<open>part_000\<close> the objects of the budget file
  \<open>config/audit.json\<close> have the same shape with \<open>audit_id\<close> and \<open>timeBudget\<close> filled.
  \<open>numericValue = None\<close> is \<open>!audit.hasOwnProperty("numericValue")\<close>;
  \<open>details = Some None\<close> is a \<open>details\<close> object without \<open>items\<close>.
  \<open>timeBudget\<close>, \<open>actualSpeed\<close> and \<open>overBudgetBy\<close> are the properties the program assigns.
\<close>

record audit =
  audit_id :: string
  numericValue :: "jsnum option"
  details :: "item list option option"
  timeBudget :: "jsnum option"
  actualSpeed :: "jsnum option"
  overBudgetBy :: "jsnum option"

text \<open>
  The report \<open>results.lhr\<close>. An object is an association list in key order;
  \<open>Object.keys\<close> is \<open>map fst\<close>, a read \<open>o[key]\<close> is \<open>map_of\<close>. The setting
  \<open>speedBudgets\<close> is not one of the engine's own and may be missing.
\<close>

record settings =
  speedBudgets :: "(string \<Rightarrow> jsnum option) option"

record lhr =
  audits :: "(string \<times> audit) list"
  configSettings :: settings

datatype js_error = ReferenceError string | TypeError string | Failure string

datatype style = Plain | Green | Red

type_synonym line = "(style \<times> string) list"

definition line_text :: "line \<Rightarrow> string" where
  "line_text l = concat (map snd l)"

datatype effect =
    Log line
  | LogError js_error
  | ChromeLaunched nat
  | LighthouseRun string
  | ChromeKill

datatype outcome = Resolved | Rejected string

record opts =
  chromeFlags :: "string list"
  opt_configOverride :: "string option"
  port :: "nat option"
  opt_output :: "string option"

record lh_json =
  isCustom :: bool
  lightHouseConfig :: string

text \<open>
  What the collaborators answer: the browser launcher (a port, or a rejection), the three
  JSON files, which are not part of the sources (\<open>override_json = None\<close>: the override file
  does not exist; \<open>Inl\<close>: reading it throws), the audit engine and \<open>chrome.kill()\<close>
  (\<open>None\<close>: it resolves).
\<close>

record world =
  launch :: "js_error + nat"
  override_json :: "(js_error + lh_json) option"
  config_json :: "js_error + lh_json"
  audit_json :: "js_error + audit list"
  lighthouse :: "string \<Rightarrow> opts \<Rightarrow> string \<Rightarrow> js_error + lhr"
  kill :: "js_error option"

text \<open>
  Identifiers that the module uses without declaring them: \<open>configOverride\<close>
  (\<open>index.js\<close>, line 68), \<open>failedBudgets\<close> and \<open>failedAudits\<close> (\<open>part_000\<close>, lines 105 and
  109). JavaScript looks them up in the global scope and throws a \<open>ReferenceError\<close> when
  they are not bound there; \<open>None\<close> is "not bound".
\<close>

record globals =
  global_configOverride :: "string option"
  global_failedBudgets :: "item list option"
  global_failedAudits :: "item list option"

section \<open>Acquiring the report\<close>

definition getLightHouseConfig :: "world \<Rightarrow> js_error + lh_json" where
  "getLightHouseConfig w =
     (case override_json w of Some r \<Rightarrow> r | None \<Rightarrow> config_json w)"

definition getLightHouseConfig_p0 :: "world \<Rightarrow> js_error + lh_json" where
  "getLightHouseConfig_p0 w = config_json w"

definition getAuditBudgets :: "world \<Rightarrow> js_error + audit list" where
  "getAuditBudgets w = audit_json w"

definition example_notice :: string where
  "example_notice =
     [CHR 0x0A] @ ''-------'' @ [CHR 0x0A] @
     ''Using example configuration for lighthouse. '' @ [CHR 0x0A] @
     ''You can configure your own lighthouse rules & budgets, read the documentation for more information.'' @ [CHR 0x0A] @
     ''https://github.com/boyney123/performance-budgets'' @ [CHR 0x0A] @
     ''-------'' @ [CHR 0x0A] @ ''      ''"

text \<open>
  The promise chain of \<open>launchChromeAndRunLighthouse\<close>, given what the module's
  \<open>getLightHouseConfig\<close> returns. The result is the effects in order and the value the
  promise settles with (\<open>Inl\<close>: rejected).
\<close>

definition launchAndRun ::
  "(js_error + lh_json) \<Rightarrow> string \<Rightarrow> opts \<Rightarrow> world \<Rightarrow> effect list \<times> (js_error + lhr)" where
  "launchAndRun config url os w =
     (case launch w of
        Inl e \<Rightarrow> ([], Inl e)
      | Inr p \<Rightarrow>
          (case config of
             Inl e \<Rightarrow> ([ChromeLaunched p], Inl e)
           | Inr c \<Rightarrow>
               (let os' = os\<lparr>port := Some p, opt_output := Some ''json''\<rparr>;
                    notice = (if \<not> isCustom c then [Log [(Plain, example_notice)]] else [])
                in case lighthouse w url os' (lightHouseConfig c) of
                     Inl e \<Rightarrow> (ChromeLaunched p # notice @ [LighthouseRun url], Inl e)
                   | Inr results_lhr \<Rightarrow>
                       (ChromeLaunched p # notice @ [LighthouseRun url, ChromeKill],
                        case kill w of Some e \<Rightarrow> Inl e | None \<Rightarrow> Inr results_lhr))))"

definition launchChromeAndRunLighthouse ::
  "string \<Rightarrow> opts \<Rightarrow> world \<Rightarrow> effect list \<times> (js_error + lhr)" where
  "launchChromeAndRunLighthouse url os w = launchAndRun (getLightHouseConfig w) url os w"

definition launchChromeAndRunLighthouse_p0 ::
  "string \<Rightarrow> opts \<Rightarrow> world \<Rightarrow> effect list \<times> (js_error + lhr)" where
  "launchChromeAndRunLighthouse_p0 url os w =
     launchAndRun (getLightHouseConfig_p0 w) url os w"

definition opts :: opts where
  "opts = \<lparr>chromeFlags =
             [''--disable-gpu'', ''--headless'', ''--no-zygote'', ''--no-sandbox'', ''--headless''],
           opt_configOverride = None, port = None, opt_output = None\<rparr>"

section \<open>The budget check of \<open>index.js\<close>\<close>

text \<open>
  The callback of the first \<open>forEach\<close> (lines 77 to 82), with the value of
  \<open>data.configSettings.speedBudgets\<close>. Reading a property of \<open>undefined\<close> throws.
\<close>

definition annotateAudit ::
  "(string \<Rightarrow> jsnum option) option \<Rightarrow> audit \<Rightarrow> js_error + audit" where
  "annotateAudit budgets a =
     (case numericValue a of
        None \<Rightarrow> Inr a
      | Some nv \<Rightarrow>
          (case budgets of
             None \<Rightarrow> Inl (TypeError ''speedBudgets is undefined'')
           | Some table \<Rightarrow>
               (let overBudget = js_sub nv (toNumber (table (audit_id a)))
                in Inr (a\<lparr>timeBudget := table (audit_id a),
                          overBudgetBy := (if js_gt_zero overBudget then Some overBudget
                                           else None)\<rparr>))))"

text \<open>
  \<open>Object.keys(speedResults).forEach(...)\<close>: every entry of the object is visited once, in
  key order, and the audit object it holds is updated in place. The result is the object
  after the loop; the loop stops at the first exception.
\<close>

fun speedForEach ::
  "(string \<Rightarrow> jsnum option) option \<Rightarrow> (string \<times> audit) list
   \<Rightarrow> js_error + (string \<times> audit) list" where
  "speedForEach budgets [] = Inr []"
| "speedForEach budgets ((key, a) # rest) =
     (case annotateAudit budgets a of
        Inl e \<Rightarrow> Inl e
      | Inr a' \<Rightarrow>
          (case speedForEach budgets rest of
             Inl e \<Rightarrow> Inl e
           | Inr rest' \<Rightarrow> Inr ((key, a') # rest')))"

text \<open>
  The two filters over \<open>Object.keys(speedResults)\<close>. Each selected key is kept together
  with the object \<open>speedResults[key]\<close> that the callback and the rendering read.
\<close>

definition successfulSpeedAudits :: "(string \<times> audit) list \<Rightarrow> (string \<times> audit) list" where
  "successfulSpeedAudits speedResults =
     filter (\<lambda>(key, a). \<not> truthy (overBudgetBy a)) speedResults"

definition failedSpeedAudits :: "(string \<times> audit) list \<Rightarrow> (string \<times> audit) list" where
  "failedSpeedAudits speedResults =
     filter (\<lambda>(key, a). truthy (overBudgetBy a)) speedResults"

text \<open>\<open>const { details: { items = [] } = {} } = bundleResults\<close>, for an object.\<close>

definition bundleItems :: "audit \<Rightarrow> item list" where
  "bundleItems bundleResults =
     (case details bundleResults of
        None \<Rightarrow> []
      | Some None \<Rightarrow> []
      | Some (Some items) \<Rightarrow> items)"

definition successfulBundleAudits :: "item list \<Rightarrow> item list" where
  "successfulBundleAudits items =
     filter (\<lambda>i. \<not> truthy (sizeOverBudget i) \<and> \<not> truthy_str (countOverBudget i)) items"

definition isValid :: "item list \<Rightarrow> (string \<times> audit) list \<Rightarrow> bool" where
  "isValid items speedResults =
     (length (successfulBundleAudits items) = length items \<and>
      length (successfulSpeedAudits speedResults) = length (map fst speedResults))"

definition failedRequestCountAudits :: "item list \<Rightarrow> item list" where
  "failedRequestCountAudits items = filter (\<lambda>a. countOverBudget a \<noteq> None) items"

definition failedBundleAudits :: "item list \<Rightarrow> item list" where
  "failedBundleAudits items = filter (\<lambda>a. sizeOverBudget a \<noteq> None) items"

subsection \<open>Rendering\<close>

text \<open>
  A printed line is the list of its pieces, each with the \<open>chalk\<close> colour applied to it;
  \<open>line_text\<close> is what is read on a terminal without colours.
\<close>

definition speedLine :: "audit \<Rightarrow> line" where
  "speedLine a =
     (let actual = Math_round (toNumber (numericValue a))
      in [(Green, audit_id a), (Plain, '': Expected less than ''),
          (Green, toString (timeBudget a)), (Plain, '' ms but got ''),
          (Red, numToString actual), (Plain, '' ms'')])"

definition countLine :: "item \<Rightarrow> js_error + line" where
  "countLine i =
     (case countOverBudget i of
        None \<Rightarrow> Inl (TypeError ''countOverBudget is undefined'')
      | Some descriptor \<Rightarrow>
          (let expectedCount =
                 js_sub (requestCount i)
                   (case js_split '' requests'' descriptor of
                      [] \<Rightarrow> NaN
                    | first # _ \<Rightarrow> stringToNumber first)
           in Inr [(Green, label i), (Plain, '': Expected ''),
                   (Green, numToString expectedCount),
                   (Plain, '' total number of requests but got ''),
                   (Red, numToString (requestCount i))]))"

definition sizeLine :: "item \<Rightarrow> line" where
  "sizeLine i =
     (let expectedSize =
            Math_round (js_div_1024 (js_sub (item_size i) (toNumber (sizeOverBudget i))));
          actual = Math_round (js_div_1024 (item_size i))
      in [(Green, label i), (Plain, '': Expected ''),
          (Green, numToString expectedSize @ ''kb''),
          (Plain, '' download size but got ''),
          (Red, numToString actual @ ''kb'')])"

text \<open>A \<open>forEach\<close> that logs one line per element and stops at the first exception.\<close>

fun logEach :: "('a \<Rightarrow> js_error + line) \<Rightarrow> 'a list \<Rightarrow> effect list \<times> js_error option" where
  "logEach f [] = ([], None)"
| "logEach f (x # xs) =
     (case f x of
        Inl e \<Rightarrow> ([], Some e)
      | Inr l \<Rightarrow> (case logEach f xs of (es, r) \<Rightarrow> (Log l # es, r)))"

definition speedSection :: "line \<Rightarrow> audit list \<Rightarrow> effect list" where
  "speedSection heading failed =
     (if failed \<noteq> [] then Log heading # map Log (map speedLine failed) else [])"

definition countSection :: "item list \<Rightarrow> effect list \<times> js_error option" where
  "countSection failed =
     (if failed \<noteq> []
      then (case logEach countLine failed of
              (es, r) \<Rightarrow>
                (Log [(Red, ''----- Failed resource count budget audits ------'')] # es, r))
      else ([], None))"

definition sizeSection :: "item list \<Rightarrow> effect list" where
  "sizeSection failed =
     (if failed \<noteq> []
      then Log [(Red, ''----- Failed resource size budget audits ------'')]
           # map Log (map sizeLine failed)
      else [])"

text \<open>The body of \<open>if (!isValid)\<close> up to its \<open>return\<close> (lines 102 to 168).\<close>

definition diagnostics ::
  "(string \<times> audit) list \<Rightarrow> item list \<Rightarrow> effect list \<times> js_error option" where
  "diagnostics speedResults items =
     (let speedPart =
            speedSection [(Red, ''----- Failed page speed budget audits ------'')]
              (map snd (failedSpeedAudits speedResults))
      in case countSection (failedRequestCountAudits items) of
           (countPart, Some e) \<Rightarrow> (speedPart @ countPart, Some e)
         | (countPart, None) \<Rightarrow>
             (speedPart @ countPart @ sizeSection (failedBundleAudits items), None))"

text \<open>
  The string literal of line 173 (line 172 in \<open>part_000\<close>), byte for byte as the source
  file holds it: seven bytes follow the space.
\<close>

definition success_message :: string where
  "success_message =
     ''All budgets passed. '' @
     [CHR 0xC3, CHR 0xA2, CHR 0xC5, CHR 0x93, CHR 0xE2, CHR 0x80, CHR 0x9D]"

text \<open>
  Lines 72 to 174 of \<open>main\<close>: what is logged, and what the function returns or throws
  (\<open>Inl\<close>), from the report.
\<close>

definition checkBudgets :: "lhr \<Rightarrow> effect list \<times> (js_error + outcome)" where
  "checkBudgets data =
     (let speedResults = audits data;
          bundleResults = map_of (audits data) ''performance-budget'';
          budgets = speedBudgets (configSettings data)
      in case speedForEach budgets speedResults of
           Inl e \<Rightarrow> ([], Inl e)
         | Inr speedResults' \<Rightarrow>
             (case bundleResults of
                None \<Rightarrow> ([], Inl (TypeError ''bundleResults is undefined''))
              | Some b \<Rightarrow>
                  (let items = bundleItems b
                   in if \<not> isValid items speedResults'
                      then (case diagnostics speedResults' items of
                              (es, Some e) \<Rightarrow> (es, Inl e)
                            | (es, None) \<Rightarrow> (es, Inr (Rejected ''Budgets broken'')))
                      else ([Log [(Plain, success_message)]], Inr Resolved))))"

text \<open>The \<open>catch\<close> clause, after the effects \<open>es\<close> of the \<open>try\<close> block.\<close>

definition caught :: "effect list \<Rightarrow> js_error \<Rightarrow> effect list \<times> outcome" where
  "caught es e = (es @ [LogError e], Rejected ''Failed to get lighthouse data'')"

definition main :: "globals \<Rightarrow> string option \<Rightarrow> world \<Rightarrow> effect list \<times> outcome" where
  "main g argv2 w =
     (if \<not> truthy_str argv2
      then ([Log [(Red, ''Please provide a url'')]], Rejected ''Please provide a valid url'')
      else
        (let url = (case argv2 of Some u \<Rightarrow> u | None \<Rightarrow> []);
             requesting = Log [(Plain, ''Requesting lighthouse data for ''), (Green, url)]
         in case global_configOverride g of
              None \<Rightarrow> caught [requesting] (ReferenceError ''configOverride is not defined'')
            | Some configOverride \<Rightarrow>
                (case launchChromeAndRunLighthouse url
                        (opts\<lparr>opt_configOverride := Some configOverride\<rparr>) w of
                   (es, Inl e) \<Rightarrow> caught (requesting # es) e
                 | (es, Inr data) \<Rightarrow>
                     (case checkBudgets data of
                        (es', Inl e) \<Rightarrow> caught (requesting # es @ es') e
                      | (es', Inr result) \<Rightarrow> (requesting # es @ es', result)))))"

section \<open>The budget check of \<open>part_000\<close>\<close>

text \<open>The callback of \<open>speedAudits.forEach\<close> (lines 69 to 80); it cannot throw.\<close>

definition annotateAudit_p0 :: "(string \<times> audit) list \<Rightarrow> audit \<Rightarrow> audit" where
  "annotateAudit_p0 auditResults a =
     (case map_of auditResults (audit_id a) of
        None \<Rightarrow> a
      | Some r \<Rightarrow>
          (case numericValue r of
             None \<Rightarrow> a
           | Some nv \<Rightarrow>
               (let overBudget = js_sub nv (toNumber (timeBudget a))
                in a\<lparr>actualSpeed := Some nv,
                     overBudgetBy := (if js_gt_zero overBudget then Some overBudget
                                      else None)\<rparr>)))"

definition successfulSpeedAudits_p0 :: "audit list \<Rightarrow> audit list" where
  "successfulSpeedAudits_p0 speedAudits = filter (\<lambda>a. \<not> truthy (overBudgetBy a)) speedAudits"

definition failedSpeedAudits_p0 :: "audit list \<Rightarrow> audit list" where
  "failedSpeedAudits_p0 speedAudits = filter (\<lambda>a. truthy (overBudgetBy a)) speedAudits"

definition isValid_p0 :: "item list \<Rightarrow> audit list \<Rightarrow> bool" where
  "isValid_p0 items speedAudits =
     (length (successfulBundleAudits items) = length items \<and>
      length (successfulSpeedAudits_p0 speedAudits) = length speedAudits)"

definition speedLine_p0 :: "audit \<Rightarrow> line" where
  "speedLine_p0 a =
     [(Green, audit_id a), (Plain, '': Expected ''),
      (Green, toString (timeBudget a)), (Plain, '' ms but got ''),
      (Red, toString (actualSpeed a))]"

definition speedSection_p0 :: "audit list \<Rightarrow> effect list" where
  "speedSection_p0 failed =
     (if failed \<noteq> []
      then Log [(Red, ''----- Failed page speed budget audits ------'')]
           # map Log (map speedLine_p0 failed)
      else [])"

text \<open>
  The body of \<open>if (!isValid)\<close> (lines 101 to 167). The two lists that are filtered for
  the resource sections are the free identifiers \<open>failedBudgets\<close> and \<open>failedAudits\<close>.
\<close>

definition diagnostics_p0 ::
  "globals \<Rightarrow> audit list \<Rightarrow> effect list \<times> js_error option" where
  "diagnostics_p0 g speedAudits =
     (case global_failedBudgets g of
        None \<Rightarrow> ([], Some (ReferenceError ''failedBudgets is not defined''))
      | Some failedBudgets \<Rightarrow>
          (case global_failedAudits g of
             None \<Rightarrow> ([], Some (ReferenceError ''failedAudits is not defined''))
           | Some failedAudits \<Rightarrow>
               (let speedPart = speedSection_p0 (failedSpeedAudits_p0 speedAudits)
                in case countSection (failedRequestCountAudits failedBudgets) of
                     (countPart, Some e) \<Rightarrow> (speedPart @ countPart, Some e)
                   | (countPart, None) \<Rightarrow>
                       (speedPart @ countPart @ sizeSection (failedBundleAudits failedAudits),
                        None))))"

definition checkBudgets_p0 ::
  "globals \<Rightarrow> audit list \<Rightarrow> lhr \<Rightarrow> effect list \<times> (js_error + outcome)" where
  "checkBudgets_p0 g speedAudits data =
     (let auditResults = audits data;
          speedAudits' = map (annotateAudit_p0 auditResults) speedAudits
      in case map_of (audits data) ''performance-budget'' of
           None \<Rightarrow> ([], Inl (TypeError ''budgets is undefined''))
         | Some budgets \<Rightarrow>
             (let items = bundleItems budgets
              in if \<not> isValid_p0 items speedAudits'
                 then (case diagnostics_p0 g speedAudits' of
                         (es, Some e) \<Rightarrow> (es, Inl e)
                       | (es, None) \<Rightarrow> (es, Inr (Rejected ''Budgets broken'')))
                 else ([Log [(Plain, success_message)]], Inr Resolved)))"

definition main_p0 :: "globals \<Rightarrow> string option \<Rightarrow> world \<Rightarrow> effect list \<times> outcome" where
  "main_p0 g argv2 w =
     (if \<not> truthy_str argv2
      then ([Log [(Red, ''Please provide a url'')]], Rejected ''Please provide a valid url'')
      else
        (let url = (case argv2 of Some u \<Rightarrow> u | None \<Rightarrow> []);
             requesting = Log [(Plain, ''Requesting lighthouse data for ''), (Green, url)]
         in case getLightHouseConfig_p0 w of
              Inl e \<Rightarrow> caught [requesting] e
            | Inr config \<Rightarrow>
                (case getAuditBudgets w of
                   Inl e \<Rightarrow> caught [requesting] e
                 | Inr speedAudits \<Rightarrow>
                     (case launchChromeAndRunLighthouse_p0 url opts w of
                        (es, Inl e) \<Rightarrow> caught (requesting # es) e
                      | (es, Inr data) \<Rightarrow>
                          (case checkBudgets_p0 g speedAudits data of
                             (es', Inl e) \<Rightarrow> caught (requesting # es @ es') e
                           | (es', Inr result) \<Rightarrow> (requesting # es @ es', result))))))"

section \<open>Example inputs\<close>

text \<open>
  Reports, budget files and collaborators on which the theorems below are instantiated:
  a measured audit of the report, an audit of the report without measurement, an entry
  of the budget file of \<open>part_000\<close>, the \<open>performance-budget\<close> audit with its rows, five
  rows, a report with one timing audit budgeted at 1000 ms, a world in which every
  collaborator succeeds and the engine answers as given, the global scope of a process in
  which nothing binds the free identifiers (\<open>module_globals\<close>), and one in which
  \<open>configOverride\<close> is bound.
\<close>

definition measured_audit :: "string \<Rightarrow> jsnum \<Rightarrow> audit" where
  "measured_audit name v =
     \<lparr>audit_id = name, numericValue = Some v, details = None,
      timeBudget = None, actualSpeed = None, overBudgetBy = None\<rparr>"

definition unmeasured_audit :: "string \<Rightarrow> audit" where
  "unmeasured_audit name =
     \<lparr>audit_id = name, numericValue = None, details = None,
      timeBudget = None, actualSpeed = None, overBudgetBy = None\<rparr>"

definition budget_audit :: "string \<Rightarrow> jsnum \<Rightarrow> audit" where
  "budget_audit name t =
     \<lparr>audit_id = name, numericValue = None, details = None,
      timeBudget = Some t, actualSpeed = None, overBudgetBy = None\<rparr>"

definition budget_table :: "item list \<Rightarrow> audit" where
  "budget_table rows =
     \<lparr>audit_id = ''performance-budget'', numericValue = None, details = Some (Some rows),
      timeBudget = None, actualSpeed = None, overBudgetBy = None\<rparr>"

definition scripts_item :: item where
  "scripts_item =
     \<lparr>label = ''scripts'', requestCount = Fin 12, item_size = Fin (300 * 1024),
      sizeOverBudget = Some (Fin (50 * 1024)), countOverBudget = None\<rparr>"

definition images_item :: item where
  "images_item =
     \<lparr>label = ''images'', requestCount = Fin 20, item_size = Fin 4096,
      sizeOverBudget = None, countOverBudget = Some ''5 requests''\<rparr>"

definition fonts_item :: item where
  "fonts_item =
     \<lparr>label = ''fonts'', requestCount = Fin 3, item_size = Fin 1024,
      sizeOverBudget = Some (Fin 0), countOverBudget = None\<rparr>"

definition tie_item :: item where
  "tie_item =
     \<lparr>label = ''fonts'', requestCount = Fin 2, item_size = Fin 1536,
      sizeOverBudget = Some (Fin 512), countOverBudget = None\<rparr>"

definition timing_report :: "real \<Rightarrow> item list \<Rightarrow> lhr" where
  "timing_report measured rows =
     \<lparr>audits = [(''first-contentful-paint'',
                  measured_audit ''first-contentful-paint'' (Fin measured)),
                 (''performance-budget'', budget_table rows)],
      configSettings = \<lparr>speedBudgets = Some [''first-contentful-paint'' \<mapsto> Fin 1000]\<rparr>\<rparr>"

definition example_world :: "(js_error + lhr) \<Rightarrow> world" where
  "example_world answer =
     \<lparr>launch = Inr 9222, override_json = None,
      config_json = Inr \<lparr>isCustom = True, lightHouseConfig = ''{}''\<rparr>,
      audit_json = Inr [budget_audit ''first-contentful-paint'' (Fin 1000)],
      lighthouse = (\<lambda>url os config. answer), kill = None\<rparr>"

definition styles_item :: item where
  "styles_item =
     \<lparr>label = ''stylesheets'', requestCount = Fin 4, item_size = Fin 2048,
      sizeOverBudget = None, countOverBudget = None\<rparr>"

definition module_globals :: globals where
  "module_globals =
     \<lparr>global_configOverride = None, global_failedBudgets = None,
      global_failedAudits = None\<rparr>"

definition example_globals :: globals where
  "example_globals =
     \<lparr>global_configOverride = Some ''lighthouse.json'',
      global_failedBudgets = None, global_failedAudits = None\<rparr>"

lemmas fixtures = measured_audit_def unmeasured_audit_def budget_audit_def budget_table_def
  scripts_item_def images_item_def fonts_item_def tie_item_def timing_report_def example_world_def
  example_globals_def styles_item_def module_globals_def

section \<open>Auxiliary facts\<close>

subsection \<open>The timing loop\<close>

lemma js_gt_zero_truthy: "js_gt_zero x \<Longrightarrow> truthy_num x"
  by (cases x) auto

lemma annotateAudit_table:
  "annotateAudit (Some table) a =
     Inr (case numericValue a of
            None \<Rightarrow> a
          | Some nv \<Rightarrow>
              a\<lparr>timeBudget := table (audit_id a),
                overBudgetBy :=
                  (if js_gt_zero (js_sub nv (toNumber (table (audit_id a))))
                   then Some (js_sub nv (toNumber (table (audit_id a)))) else None)\<rparr>)"
  by (simp add: annotateAudit_def Let_def split: option.splits)

lemma speedForEach_table:
  "speedForEach (Some table) speedResults =
     Inr (map (\<lambda>(key, a). (key, projr (annotateAudit (Some table) a))) speedResults)"
  by (induction speedResults) (auto simp: annotateAudit_table)

lemma in_filter_nth:
  "i < length xs \<Longrightarrow> (xs ! i \<in> set (filter P xs)) = P (xs ! i)"
  by simp

lemma js_sub_NaN: "js_sub m NaN = NaN"
  by (cases m) simp_all

lemma speedForEach_keys:
  "speedForEach budgets speedResults = Inr speedResults' \<Longrightarrow>
     map fst speedResults' = map fst speedResults"
  by (induction speedResults arbitrary: speedResults') (auto split: sum.splits)

lemma annotateAudit_unmeasured:
  "numericValue a = None \<Longrightarrow> annotateAudit budgets a = Inr a"
  by (simp add: annotateAudit_def)

lemma speedForEach_nth:
  "speedForEach budgets speedResults = Inr speedResults' \<Longrightarrow> i < length speedResults \<Longrightarrow>
     annotateAudit budgets (snd (speedResults ! i)) = Inr (snd (speedResults' ! i)) \<and>
     fst (speedResults' ! i) = fst (speedResults ! i)"
proof (induction speedResults arbitrary: speedResults' i)
  case Nil
  then show ?case by simp
next
  case (Cons e rest)
  obtain key a where e: "e = (key, a)" by (cases e)
  from Cons.prems(1) e obtain a' rest' where
    a': "annotateAudit budgets a = Inr a'" and
    rest': "speedForEach budgets rest = Inr rest'" and
    sr': "speedResults' = (key, a') # rest'"
    by (auto split: sum.splits)
  show ?case
  proof (cases i)
    case 0
    with e a' sr' show ?thesis by simp
  next
    case (Suc k)
    with Cons.prems(2) have "k < length rest" by simp
    from Cons.IH [OF rest' this] Suc sr' show ?thesis by simp
  qed
qed

lemma speedForEach_length:
  "speedForEach budgets speedResults = Inr speedResults' \<Longrightarrow>
     length speedResults' = length speedResults"
  using speedForEach_keys [of budgets speedResults speedResults']
  by (metis length_map)

lemma annotateAudit_frame:
  "annotateAudit budgets a = Inr a' \<Longrightarrow>
     a'\<lparr>timeBudget := None, overBudgetBy := None\<rparr> = a\<lparr>timeBudget := None, overBudgetBy := None\<rparr>"
  by (auto simp: annotateAudit_def Let_def split: option.splits)

lemma annotateAudit_p0_frame:
  "(annotateAudit_p0 auditResults a)\<lparr>actualSpeed := None, overBudgetBy := None\<rparr> =
     a\<lparr>actualSpeed := None, overBudgetBy := None\<rparr>"
  by (auto simp: annotateAudit_p0_def Let_def split: option.splits)

lemma speedForEach_frame:
  "speedForEach budgets speedResults = Inr speedResults' \<Longrightarrow>
     map (\<lambda>(key, a). (key, a\<lparr>timeBudget := None, overBudgetBy := None\<rparr>)) speedResults' =
     map (\<lambda>(key, a). (key, a\<lparr>timeBudget := None, overBudgetBy := None\<rparr>)) speedResults"
  by (induction speedResults arbitrary: speedResults')
    (auto split: sum.splits simp: annotateAudit_frame)

subsection \<open>Validity and the diagnostics\<close>

lemma length_filter_all:
  "(length (filter P xs) = length xs) = (\<forall>x\<in>set xs. P x)"
proof (induction xs)
  case Nil
  then show ?case by simp
next
  case (Cons x xs)
  have "length (filter P xs) \<noteq> Suc (length xs)"
    using length_filter_le [of P xs] by arith
  with Cons show ?case by auto
qed

lemma isValid_iff:
  "isValid items speedResults \<longleftrightarrow>
     set items \<subseteq> set (successfulBundleAudits items) \<and>
     set speedResults \<subseteq> set (successfulSpeedAudits speedResults)"
  unfolding isValid_def successfulBundleAudits_def successfulSpeedAudits_def
  by (auto simp: length_filter_all)

lemma logEach_countLine:
  "logEach countLine (failedRequestCountAudits items) =
     (map (\<lambda>i. Log (projr (countLine i))) (failedRequestCountAudits items), None)"
  unfolding failedRequestCountAudits_def
  by (induction items) (auto simp: countLine_def Let_def)

lemma diagnostics_eq:
  "diagnostics speedResults items =
     (speedSection [(Red, ''----- Failed page speed budget audits ------'')]
        (map snd (failedSpeedAudits speedResults))
      @ fst (countSection (failedRequestCountAudits items))
      @ sizeSection (failedBundleAudits items), None)"
  by (simp add: diagnostics_def countSection_def logEach_countLine Let_def)

lemma checkBudgets_eq:
  assumes "speedForEach (speedBudgets (configSettings data)) (audits data) = Inr speedResults'"
    and "map_of (audits data) ''performance-budget'' = Some b"
  shows "checkBudgets data =
     (if isValid (bundleItems b) speedResults'
      then ([Log [(Plain, success_message)]], Inr Resolved)
      else (fst (diagnostics speedResults' (bundleItems b)), Inr (Rejected ''Budgets broken'')))"
  using assms by (simp add: checkBudgets_def Let_def diagnostics_eq)

lemma main_eq:
  assumes "argv2 = Some url" "url \<noteq> []"
    and "global_configOverride g = Some c"
    and "launchChromeAndRunLighthouse url (opts\<lparr>opt_configOverride := Some c\<rparr>) w = (es, Inr data)"
    and "checkBudgets data = (es', Inr result)"
  shows "main g argv2 w =
     (Log [(Plain, ''Requesting lighthouse data for ''), (Green, url)] # es @ es', result)"
  using assms by (simp add: main_def truthy_str_def Let_def)

lemma speedLine_logged:
  "e \<in> set (failedSpeedAudits speedResults) \<Longrightarrow>
     Log (speedLine (snd e)) \<in> set (fst (diagnostics speedResults items))"
  by (auto simp: diagnostics_eq speedSection_def)

lemma sizeLine_logged:
  assumes "i \<in> set items" and "sizeOverBudget i \<noteq> None"
  shows "Log (sizeLine i) \<in> set (fst (diagnostics speedResults items))"
proof -
  from assms have "i \<in> set (failedBundleAudits items)"
    by (simp add: failedBundleAudits_def)
  then have "Log (sizeLine i) \<in> set (sizeSection (failedBundleAudits items))"
    by (auto simp: sizeSection_def)
  then show ?thesis by (simp add: diagnostics_eq)
qed

lemma countLine_logged:
  assumes "i \<in> set items" and "countOverBudget i \<noteq> None"
  shows "Log (projr (countLine i)) \<in> set (fst (diagnostics speedResults items))"
proof -
  from assms have "i \<in> set (failedRequestCountAudits items)"
    by (simp add: failedRequestCountAudits_def)
  then have "Log (projr (countLine i)) \<in> set (fst (countSection (failedRequestCountAudits items)))"
    by (auto simp: countSection_def logEach_countLine)
  then show ?thesis by (simp add: diagnostics_eq)
qed

lemma all_successful_remove:
  assumes "i < length xs" and "P (xs ! i)"
  shows "(\<forall>x\<in>set xs. P x) = (\<forall>x\<in>set (take i xs @ drop (Suc i) xs). P x)"
proof -
  have eq: "set xs = set (take i xs) \<union> insert (xs ! i) (set (drop (Suc i) xs))"
    using arg_cong [OF id_take_nth_drop [OF assms(1)], of set]
    by (simp only: set_append list.set(2))
  show ?thesis
    by (subst eq) (use assms(2) in auto)
qed

lemma isValid_remove:
  assumes "i < length speedResults"
    and "speedResults ! i \<in> set (successfulSpeedAudits speedResults)"
  shows "isValid items speedResults =
         isValid items (take i speedResults @ drop (Suc i) speedResults)"
proof -
  let ?P = "\<lambda>(key, a). \<not> truthy (overBudgetBy a)"
  from assms(2) have "?P (speedResults ! i)"
    by (simp add: successfulSpeedAudits_def)
  from all_successful_remove [of i speedResults ?P, OF assms(1) this]
  show ?thesis
    unfolding isValid_def successfulSpeedAudits_def length_map length_filter_all
    by simp
qed

lemma isValid_p0_remove:
  assumes "j < length speedAudits"
    and "speedAudits ! j \<in> set (successfulSpeedAudits_p0 speedAudits)"
  shows "isValid_p0 items speedAudits =
         isValid_p0 items (take j speedAudits @ drop (Suc j) speedAudits)"
proof -
  let ?P = "\<lambda>a. \<not> truthy (overBudgetBy a)"
  from assms(2) have "?P (speedAudits ! j)"
    by (simp add: successfulSpeedAudits_p0_def)
  from all_successful_remove [of j speedAudits ?P, OF assms(1) this]
  show ?thesis
    unfolding isValid_p0_def successfulSpeedAudits_p0_def length_filter_all
    by simp
qed

subsection \<open>Reading the request-count descriptor\<close>

lemma digit_not_space: "isDigit c \<Longrightarrow> \<not> isWhiteSpace c"
  by (auto simp: isDigit_def isWhiteSpace_def)

lemma digit_not_mark:
  "isDigit c \<Longrightarrow> c \<notin> set ''xXoObB+-I ''"
  by (auto simp: isDigit_def)

lemma trim_digits:
  assumes "ds \<noteq> []" and "list_all isDigit ds"
  shows "trim ds = ds"
proof -
  from assms have "\<not> isWhiteSpace (hd ds)" "\<not> isWhiteSpace (last ds)"
    by (auto simp: list_all_iff digit_not_space)
  with assms(1) have "dropWhile isWhiteSpace ds = ds"
    and "dropWhile isWhiteSpace (rev ds) = rev ds"
    by (auto simp: dropWhile_eq_self_iff hd_rev)
  then show ?thesis by (simp add: trim_def)
qed

lemma split_digits:
  "list_all isDigit ds \<Longrightarrow>
     split_from '' requests'' acc (ds @ '' requests'') = [rev acc @ ds, []]"
proof (induction ds arbitrary: acc)
  case Nil
  then show ?case by simp
next
  case (Cons c ds)
  then have "c \<noteq> CHR '' ''" using digit_not_mark [of c] by auto
  with Cons show ?case by simp
qed

lemma js_split_digits:
  "list_all isDigit ds \<Longrightarrow> js_split '' requests'' (ds @ '' requests'') = [ds, []]"
  by (simp add: js_split_def split_digits)

lemma nonDecimalLiteral_digits:
  "list_all isDigit ds \<Longrightarrow> nonDecimalLiteral ds = None"
proof (cases ds)
  case Nil
  then show ?thesis by (simp add: nonDecimalLiteral_def)
next
  case (Cons z r)
  assume all: "list_all isDigit ds"
  show ?thesis
  proof (cases r)
    case Nil
    with Cons show ?thesis by (simp add: nonDecimalLiteral_def)
  next
    case (Cons p r')
    with all \<open>ds = z # r\<close> have "isDigit p" by simp
    then have "p \<notin> set ''xXoObB''" using digit_not_mark [of p] by auto
    with Cons \<open>ds = z # r\<close> show ?thesis by (simp add: nonDecimalLiteral_def)
  qed
qed

lemma unsignedDecimalLiteral_digits:
  assumes "ds \<noteq> []" and "list_all isDigit ds"
  shows "unsignedDecimalLiteral ds = Some (of_nat (decimal_value ds))"
proof -
  from assms(2) have tw: "takeWhile isDigit ds = ds" and dw: "dropWhile isDigit ds = []"
    by (simp_all add: list_all_iff)
  show ?thesis
    unfolding unsignedDecimalLiteral_def Let_def tw dw
    using assms(1) by (simp add: exponentPart_def)
qed

lemma decimalLiteral_digits:
  assumes "ds \<noteq> []" and "list_all isDigit ds"
  shows "decimalLiteral ds = Fin (of_nat (decimal_value ds))"
proof -
  from assms have hd: "isDigit (hd ds)" by (cases ds) auto
  then have sign: "hd ds \<noteq> CHR ''-''" "hd ds \<noteq> CHR ''+''" "hd ds \<noteq> CHR ''I''"
    using digit_not_mark [of "hd ds"] by auto
  then have "ds \<noteq> ''Infinity''" by auto
  with assms sign show ?thesis
    by (simp add: decimalLiteral_def unsignedDecimalLiteral_digits)
qed

lemma stringToNumber_digits:
  assumes "ds \<noteq> []" and "list_all isDigit ds"
  shows "stringToNumber ds = Fin (of_nat (decimal_value ds))"
  using assms
  by (simp add: stringToNumber_def trim_digits nonDecimalLiteral_digits decimalLiteral_digits)

lemma digit_char_isDigit: "d < 10 \<Longrightarrow> isDigit (digit_char d)"
proof -
  assume "d < 10"
  then have "d \<in> {0, 1, 2, 3, 4, 5, 6, 7, 8, 9}" by auto
  then show ?thesis by (auto simp: digit_char_def isDigit_def)
qed

lemma digit_index_digit_char:
  "d < 10 \<Longrightarrow> digit_index ''0123456789'' (digit_char d) = Some d"
proof -
  assume "d < 10"
  then have "d \<in> {0, 1, 2, 3, 4, 5, 6, 7, 8, 9}" by auto
  then show ?thesis by (auto simp: digit_char_def digit_index_def)
qed

lemma radix_value_snoc:
  "radix_value b al acc (xs @ [c]) =
     (case radix_value b al acc xs of
        None \<Rightarrow> None
      | Some v \<Rightarrow> radix_value b al v [c])"
  by (induction xs arbitrary: acc) (auto split: list.splits)

lemma radix_value_show_nat:
  "radix_value 10 [''0123456789''] 0 (show_nat n) = Some n"
proof (induction n rule: show_nat.induct)
  case (1 n)
  show ?case
  proof (cases "n < 10")
    case True
    then show ?thesis
      by (subst show_nat.simps) (simp add: List.map_filter_def digit_index_digit_char)
  next
    case False
    have "n mod 10 < 10" by simp
    with False 1 show ?thesis
      by (subst show_nat.simps)
        (simp add: radix_value_snoc List.map_filter_def digit_index_digit_char)
  qed
qed

lemma decimal_value_show_nat: "decimal_value (show_nat n) = n"
  by (simp add: decimal_value_def radix_value_show_nat)

lemma show_nat_digits: "list_all isDigit (show_nat n) \<and> show_nat n \<noteq> []"
proof (induction n rule: show_nat.induct)
  case (1 n)
  show ?case
  proof (cases "n < 10")
    case True
    then show ?thesis by (subst (1 2) show_nat.simps) (simp add: digit_char_isDigit)
  next
    case False
    have "n mod 10 < 10" by simp
    with False 1 show ?thesis
      by (subst (1 2) show_nat.simps) (simp add: digit_char_isDigit)
  qed
qed

lemma numToString_nat: "numToString (Fin (of_nat n)) = show_nat n"
  by simp

lemmas run_defs = main_def truthy_str_def launchChromeAndRunLighthouse_def launchAndRun_def
  getLightHouseConfig_def opts_def

subsection \<open>The browser\<close>

lemma launchAndRun_effects:
  assumes "launchAndRun config url os w = (es, r)"
  shows "(ChromeKill \<in> set es \<longleftrightarrow>
            (\<exists>p c data. launch w = Inr p \<and> config = Inr c \<and>
               lighthouse w url (os\<lparr>port := Some p, opt_output := Some ''json''\<rparr>)
                 (lightHouseConfig c) = Inr data))
       \<and> ((\<exists>p. ChromeLaunched p \<in> set es) \<longleftrightarrow> (\<exists>p. launch w = Inr p))
       \<and> (\<forall>data. r = Inr data \<longrightarrow>
             (\<exists>p. hd es = ChromeLaunched p) \<and> last es = ChromeKill \<and> kill w = None)"
proof (cases "launch w")
  case (Inl e)
  with assms show ?thesis by (auto simp: launchAndRun_def)
next
  case launched: (Inr p)
  show ?thesis
  proof (cases config)
    case (Inl e)
    with assms launched show ?thesis by (auto simp: launchAndRun_def)
  next
    case cfg: (Inr c)
    show ?thesis
    proof (cases "lighthouse w url (os\<lparr>port := Some p, opt_output := Some ''json''\<rparr>)
        (lightHouseConfig c)")
      case (Inl e)
      with assms launched cfg show ?thesis
        by (auto simp: launchAndRun_def Let_def)
    next
      case (Inr data)
      with assms launched cfg show ?thesis
        by (auto simp: launchAndRun_def Let_def split: option.splits)
    qed
  qed
qed

subsection \<open>Free identifiers and the missing argument\<close>

text \<open>
  With \<open>configOverride\<close> unbound, \<open>main\<close> of \<open>index.js\<close> fails before the browser is
  launched; with \<open>failedBudgets\<close> unbound, \<open>part_000\<close> throws before it prints a diagnostic.
\<close>

lemma main_configOverride_unbound:
  assumes "argv2 = Some url" and "url \<noteq> []" and "global_configOverride g = None"
  shows "main g argv2 w =
           ([Log [(Plain, ''Requesting lighthouse data for ''), (Green, url)],
             LogError (ReferenceError ''configOverride is not defined'')],
            Rejected ''Failed to get lighthouse data'')"
  using assms by (simp add: main_def truthy_str_def caught_def Let_def)

lemma diagnostics_p0_unbound:
  "global_failedBudgets g = None \<Longrightarrow>
     diagnostics_p0 g speedAudits =
       ([], Some (ReferenceError ''failedBudgets is not defined''))"
  by (simp add: diagnostics_p0_def)

lemma main_missing_url:
  "main g None w =
     ([Log [(Red, ''Please provide a url'')]], Rejected ''Please provide a valid url'')"
  by (simp add: main_def truthy_str_def)

subsection \<open>The verdict, where a run reaches it\<close>

text \<open>\<open>const { details: { items = [] } = {} } = bundleResults\<close>, case by case.\<close>

lemma bundleItems_cases:
  "(details b = Some (Some rows) \<longrightarrow> bundleItems b = rows) \<and>
   (details b = Some None \<longrightarrow> bundleItems b = []) \<and>
   (details b = None \<longrightarrow> bundleItems b = [])"
  by (simp add: bundleItems_def)

text \<open>
  What lines 72 to 174 of \<open>index.js\<close> do once they are reached, that is on a run in which a
  URL is given, \<open>configOverride\<close> is bound, the report arrives, and its timing loop and its
  \<open>performance-budget\<close> audit are read without an exception: the promise resolves exactly
  when every timing audit and every resource item is among the successful ones, and then
  the success message is the last thing logged; otherwise it rejects with
  \<open>Budgets broken\<close>, after the diagnostics, which hold a line for every timing audit and
  every resource item that is over budget.
\<close>

lemma verdict_when_reached:
  assumes "argv2 = Some url" and "url \<noteq> []"
    and "global_configOverride g = Some c"
    and "launchChromeAndRunLighthouse url (opts\<lparr>opt_configOverride := Some c\<rparr>) w = (es, Inr data)"
    and "speedForEach (speedBudgets (configSettings data)) (audits data) = Inr speedResults'"
    and "map_of (audits data) ''performance-budget'' = Some b"
    and "items = bundleItems b"
  shows "(snd (main g argv2 w) = Resolved \<longleftrightarrow>
            set speedResults' \<subseteq> set (successfulSpeedAudits speedResults') \<and>
            set items \<subseteq> set (successfulBundleAudits items))
       \<and> (snd (main g argv2 w) = Resolved \<longrightarrow>
            fst (main g argv2 w) =
              Log [(Plain, ''Requesting lighthouse data for ''), (Green, url)] # es
              @ [Log [(Plain, success_message)]])
       \<and> (snd (main g argv2 w) \<noteq> Resolved \<longrightarrow>
            snd (main g argv2 w) = Rejected ''Budgets broken'' \<and>
            fst (main g argv2 w) =
              Log [(Plain, ''Requesting lighthouse data for ''), (Green, url)] # es
              @ fst (diagnostics speedResults' items) \<and>
            (\<forall>e\<in>set speedResults'. e \<notin> set (successfulSpeedAudits speedResults') \<longrightarrow>
               Log (speedLine (snd e)) \<in> set (fst (main g argv2 w))) \<and>
            (\<forall>i\<in>set items. truthy (sizeOverBudget i) \<longrightarrow>
               Log (sizeLine i) \<in> set (fst (main g argv2 w))) \<and>
            (\<forall>i\<in>set items. truthy_str (countOverBudget i) \<longrightarrow>
               Log (projr (countLine i)) \<in> set (fst (main g argv2 w))))"
proof (cases "isValid items speedResults'")
  case True
  with assms have cb: "checkBudgets data = ([Log [(Plain, success_message)]], Inr Resolved)"
    by (simp add: checkBudgets_eq)
  show ?thesis
    using True by (simp add: main_eq [OF assms(1-4) cb] isValid_iff)
next
  case False
  with assms have cb: "checkBudgets data =
      (fst (diagnostics speedResults' items), Inr (Rejected ''Budgets broken''))"
    by (simp add: checkBudgets_eq)
  have m: "main g argv2 w =
      (Log [(Plain, ''Requesting lighthouse data for ''), (Green, url)] # es
         @ fst (diagnostics speedResults' items), Rejected ''Budgets broken'')"
    by (rule main_eq [OF assms(1-4) cb])
  have sp: "\<forall>e\<in>set speedResults'. e \<notin> set (successfulSpeedAudits speedResults') \<longrightarrow>
      Log (speedLine (snd e)) \<in> set (fst (diagnostics speedResults' items))"
  proof (intro ballI impI)
    fix e assume "e \<in> set speedResults'" "e \<notin> set (successfulSpeedAudits speedResults')"
    then have "e \<in> set (failedSpeedAudits speedResults')"
      by (auto simp: successfulSpeedAudits_def failedSpeedAudits_def)
    then show "Log (speedLine (snd e)) \<in> set (fst (diagnostics speedResults' items))"
      by (rule speedLine_logged)
  qed
  have sz: "\<forall>i\<in>set items. truthy (sizeOverBudget i) \<longrightarrow>
      Log (sizeLine i) \<in> set (fst (diagnostics speedResults' items))"
    by (auto intro!: sizeLine_logged simp: truthy_def split: option.splits)
  have ct: "\<forall>i\<in>set items. truthy_str (countOverBudget i) \<longrightarrow>
      Log (projr (countLine i)) \<in> set (fst (diagnostics speedResults' items))"
    by (auto intro!: countLine_logged simp: truthy_str_def split: option.splits)
  from False have "\<not> (set speedResults' \<subseteq> set (successfulSpeedAudits speedResults') \<and>
      set items \<subseteq> set (successfulBundleAudits items))"
    by (auto simp: isValid_iff)
  then show ?thesis
    using sp sz ct by (simp add: m)
qed

text \<open>Two such runs: a page over its timing and size budgets, and a page within them.\<close>

lemma verdict_examples:
  "snd (main example_globals (Some ''http://localhost'')
          (example_world (Inr (timing_report 1500 [scripts_item])))) = Rejected ''Budgets broken''
   \<and> snd (main example_globals (Some ''http://localhost'')
          (example_world (Inr (timing_report 1000 [])))) = Resolved"
proof -
  let ?url = "''http://localhost''"
  let ?es = "[ChromeLaunched 9222, LighthouseRun ?url, ChromeKill]"
  let ?fcp = "''first-contentful-paint''"
  have g: "global_configOverride example_globals = Some ''lighthouse.json''"
    by (simp add: example_globals_def)
  have l: "launchChromeAndRunLighthouse ?url (opts\<lparr>opt_configOverride := Some ''lighthouse.json''\<rparr>)
             (example_world (Inr r)) = (?es, Inr r)" for r
    by (simp add: run_defs example_world_def)
  have s: "speedForEach (speedBudgets (configSettings (timing_report m rows)))
             (audits (timing_report m rows)) =
           Inr [(?fcp, (measured_audit ?fcp (Fin m))
                         \<lparr>timeBudget := Some (Fin 1000),
                          overBudgetBy := (if m - 1000 > 0 then Some (Fin (m - 1000)) else None)\<rparr>),
                (''performance-budget'', budget_table rows)]" for m rows
    by (simp add: fixtures annotateAudit_def Let_def toNumber_def)
  have b: "map_of (audits (timing_report m rows)) ''performance-budget'' = Some (budget_table rows)"
    for m rows
    by (simp add: fixtures)
  note fail = verdict_when_reached [OF refl _ g l [of "timing_report 1500 [scripts_item]"]
      s [of 1500 "[scripts_item]"] b [of 1500 "[scripts_item]"] refl]
  note pass = verdict_when_reached [OF refl _ g l [of "timing_report 1000 []"]
      s [of 1000 "[]"] b [of 1000 "[]"] refl]
  have over: "\<not> set (bundleItems (budget_table [scripts_item]))
               \<subseteq> set (successfulBundleAudits (bundleItems (budget_table [scripts_item])))"
    by (simp add: fixtures bundleItems_def successfulBundleAudits_def truthy_def)
  have "snd (main example_globals (Some ?url)
          (example_world (Inr (timing_report 1500 [scripts_item])))) = Rejected ''Budgets broken''"
    using fail over by simp
  moreover have "snd (main example_globals (Some ?url)
          (example_world (Inr (timing_report 1000 [])))) = Resolved"
    using pass
    by (simp add: bundleItems_def budget_table_def successfulSpeedAudits_def truthy_def
        measured_audit_def)
  ultimately show ?thesis by simp
qed

subsection \<open>The filter on resource items\<close>

text \<open>
  The filter \<open>!sizeOverBudget && !countOverBudget\<close> of lines 91 to 95, spelt out on the
  values of the two fields.
\<close>

lemma successfulBundleAudits_truthy:
  assumes "i \<in> set items"
  shows "(i \<notin> set (successfulBundleAudits items) \<longleftrightarrow>
            (\<exists>n. sizeOverBudget i = Some n \<and> n \<noteq> NaN \<and> n \<noteq> Fin 0) \<or>
            (\<exists>s. countOverBudget i = Some s \<and> s \<noteq> []))
       \<and> (sizeOverBudget i = None \<and> countOverBudget i = None \<longrightarrow>
            i \<in> set (successfulBundleAudits items))
       \<and> ((\<exists>n. sizeOverBudget i = Some n \<and> js_gt_zero n) \<or>
           (\<exists>s. countOverBudget i = Some s \<and> s \<noteq> []) \<longrightarrow>
            i \<notin> set (successfulBundleAudits items))"
proof -
  have num: "truthy v \<longleftrightarrow> (\<exists>n. v = Some n \<and> n \<noteq> NaN \<and> n \<noteq> Fin 0)" for v
  proof (cases v)
    case None
    then show ?thesis by (simp add: truthy_def)
  next
    case (Some n)
    then show ?thesis by (cases n) (simp_all add: truthy_def)
  qed
  have str: "truthy_str v \<longleftrightarrow> (\<exists>s. v = Some s \<and> s \<noteq> [])" for v
    by (cases v) (simp_all add: truthy_str_def)
  have pos: "js_gt_zero n \<Longrightarrow> n \<noteq> NaN \<and> n \<noteq> Fin 0" for n
    by (cases n) auto
  from assms have mem: "i \<in> set (successfulBundleAudits items) \<longleftrightarrow>
      \<not> truthy (sizeOverBudget i) \<and> \<not> truthy_str (countOverBudget i)"
    by (simp add: successfulBundleAudits_def)
  show ?thesis
    unfolding mem num str using pos by auto
qed

text \<open>
  On a value that the engine does not write the two tests part: a row whose size-over-budget
  field is present and holds \<open>0\<close> passes the validity filter (truthiness) and is still listed
  among the size failures (presence).
\<close>

lemma zero_overage_row:
  "fonts_item \<in> set (successfulBundleAudits [fonts_item])
   \<and> fonts_item \<in> set (failedBundleAudits [fonts_item])"
  by (simp add: fonts_item_def successfulBundleAudits_def failedBundleAudits_def
      truthy_def truthy_str_def)

section \<open>The claims\<close>

text \<open>
  Claim C1. A timing audit that is evaluated (its identifier has a threshold \<open>t\<close>, the
  report holds a measurement \<open>m\<close> for it) is among the failed audits exactly when
  \<open>m - t > 0\<close> holds in JavaScript, and among the successful ones otherwise. For finite
  values this is \<open>0 < x - y\<close>, strictly: a measurement equal to its threshold is within
  budget. First part: \<open>index.js\<close>, the entry at position \<open>i\<close> of the report after the loop.
  Second part: \<open>part_000\<close>, the entry at position \<open>j\<close> of the budget list after the loop.
\<close>

theorem C1_timing:
  "(i < length speedResults \<and> speedResults ! i = (key, a) \<and>
    numericValue a = Some m \<and> table (audit_id a) = Some t \<and>
    speedForEach (Some table) speedResults = Inr speedResults'
    \<longrightarrow>
      (speedResults' ! i \<in> set (failedSpeedAudits speedResults') \<longleftrightarrow> js_gt_zero (js_sub m t)) \<and>
      (speedResults' ! i \<in> set (successfulSpeedAudits speedResults') \<longleftrightarrow>
         \<not> js_gt_zero (js_sub m t)) \<and>
      (\<forall>x y. m = Fin x \<and> t = Fin y \<longrightarrow>
         (speedResults' ! i \<in> set (failedSpeedAudits speedResults') \<longleftrightarrow> 0 < x - y) \<and>
         (x - y = 0 \<longrightarrow> speedResults' ! i \<in> set (successfulSpeedAudits speedResults'))))
   \<and>
   (j < length speedAudits \<and> speedAudits ! j = b \<and> timeBudget b = Some t0 \<and>
    map_of auditResults (audit_id b) = Some r \<and> numericValue r = Some m0 \<and>
    speedAudits' = map (annotateAudit_p0 auditResults) speedAudits
    \<longrightarrow>
      (speedAudits' ! j \<in> set (failedSpeedAudits_p0 speedAudits') \<longleftrightarrow>
         js_gt_zero (js_sub m0 t0)) \<and>
      (speedAudits' ! j \<in> set (successfulSpeedAudits_p0 speedAudits') \<longleftrightarrow>
         \<not> js_gt_zero (js_sub m0 t0)) \<and>
      (\<forall>x y. m0 = Fin x \<and> t0 = Fin y \<longrightarrow>
         (speedAudits' ! j \<in> set (failedSpeedAudits_p0 speedAudits') \<longleftrightarrow> 0 < x - y) \<and>
         (x - y = 0 \<longrightarrow> speedAudits' ! j \<in> set (successfulSpeedAudits_p0 speedAudits'))))"
proof -
  have first: "(speedResults' ! i \<in> set (failedSpeedAudits speedResults') \<longleftrightarrow>
        js_gt_zero (js_sub m t)) \<and>
      (speedResults' ! i \<in> set (successfulSpeedAudits speedResults') \<longleftrightarrow>
        \<not> js_gt_zero (js_sub m t))"
    if h: "i < length speedResults \<and> speedResults ! i = (key, a) \<and>
      numericValue a = Some m \<and> table (audit_id a) = Some t \<and>
      speedForEach (Some table) speedResults = Inr speedResults'"
  proof -
    from h have sr': "speedResults' =
        map (\<lambda>(key, a). (key, projr (annotateAudit (Some table) a))) speedResults"
      by (simp add: speedForEach_table)
    from h have nth: "speedResults' ! i = (key, projr (annotateAudit (Some table) a))"
      and len: "i < length speedResults'"
      by (simp_all add: sr')
    from h have ob: "truthy (overBudgetBy (projr (annotateAudit (Some table) a))) =
        js_gt_zero (js_sub m t)"
      by (simp add: annotateAudit_table toNumber_def truthy_def js_gt_zero_truthy)
    show ?thesis
      unfolding failedSpeedAudits_def successfulSpeedAudits_def in_filter_nth [OF len]
      by (simp add: nth ob)
  qed
  have second: "(speedAudits' ! j \<in> set (failedSpeedAudits_p0 speedAudits') \<longleftrightarrow>
        js_gt_zero (js_sub m0 t0)) \<and>
      (speedAudits' ! j \<in> set (successfulSpeedAudits_p0 speedAudits') \<longleftrightarrow>
        \<not> js_gt_zero (js_sub m0 t0))"
    if h: "j < length speedAudits \<and> speedAudits ! j = b \<and> timeBudget b = Some t0 \<and>
      map_of auditResults (audit_id b) = Some r \<and> numericValue r = Some m0 \<and>
      speedAudits' = map (annotateAudit_p0 auditResults) speedAudits"
  proof -
    from h have nth: "speedAudits' ! j = annotateAudit_p0 auditResults b"
      and len: "j < length speedAudits'"
      by simp_all
    from h have ob: "truthy (overBudgetBy (annotateAudit_p0 auditResults b)) =
        js_gt_zero (js_sub m0 t0)"
      by (simp add: annotateAudit_p0_def toNumber_def truthy_def js_gt_zero_truthy Let_def)
    show ?thesis
      unfolding failedSpeedAudits_p0_def successfulSpeedAudits_p0_def in_filter_nth [OF len]
      by (simp add: nth ob)
  qed
  show ?thesis
  proof (intro conjI impI allI)
    assume h: "i < length speedResults \<and> speedResults ! i = (key, a) \<and>
      numericValue a = Some m \<and> table (audit_id a) = Some t \<and>
      speedForEach (Some table) speedResults = Inr speedResults'"
    from first [OF h]
    show "speedResults' ! i \<in> set (failedSpeedAudits speedResults') \<longleftrightarrow>
        js_gt_zero (js_sub m t)"
      and "speedResults' ! i \<in> set (successfulSpeedAudits speedResults') \<longleftrightarrow>
        \<not> js_gt_zero (js_sub m t)"
      by simp_all
    fix x y assume "m = Fin x \<and> t = Fin y"
    with first [OF h]
    show "speedResults' ! i \<in> set (failedSpeedAudits speedResults') \<longleftrightarrow> 0 < x - y"
      by simp
    assume "x - y = 0"
    with first [OF h] \<open>m = Fin x \<and> t = Fin y\<close>
    show "speedResults' ! i \<in> set (successfulSpeedAudits speedResults')"
      by simp
  next
    assume h: "j < length speedAudits \<and> speedAudits ! j = b \<and> timeBudget b = Some t0 \<and>
      map_of auditResults (audit_id b) = Some r \<and> numericValue r = Some m0 \<and>
      speedAudits' = map (annotateAudit_p0 auditResults) speedAudits"
    from second [OF h]
    show "speedAudits' ! j \<in> set (failedSpeedAudits_p0 speedAudits') \<longleftrightarrow>
        js_gt_zero (js_sub m0 t0)"
      and "speedAudits' ! j \<in> set (successfulSpeedAudits_p0 speedAudits') \<longleftrightarrow>
        \<not> js_gt_zero (js_sub m0 t0)"
      by simp_all
    fix x y assume "m0 = Fin x \<and> t0 = Fin y"
    with second [OF h]
    show "speedAudits' ! j \<in> set (failedSpeedAudits_p0 speedAudits') \<longleftrightarrow> 0 < x - y"
      by simp
    assume "x - y = 0"
    with second [OF h] \<open>m0 = Fin x \<and> t0 = Fin y\<close>
    show "speedAudits' ! j \<in> set (successfulSpeedAudits_p0 speedAudits')"
      by simp
  qed
qed

text \<open>
  C1 at a threshold of 2000 ms: a measurement of 2001 ms is over budget (\<open>index.js\<close>),
  one of 2000 ms is within budget (\<open>part_000\<close>).
\<close>

theorem C1_witness:
  "speedForEach (Some [''interactive'' \<mapsto> Fin 2000]) [(''interactive'', measured_audit ''interactive'' (Fin 2001))]
     = Inr [(''interactive'', (measured_audit ''interactive'' (Fin 2001))\<lparr>timeBudget := Some (Fin 2000), overBudgetBy := Some (Fin 1)\<rparr>)]
   \<and> (''interactive'', (measured_audit ''interactive'' (Fin 2001))\<lparr>timeBudget := Some (Fin 2000), overBudgetBy := Some (Fin 1)\<rparr>)
        \<in> set (failedSpeedAudits [(''interactive'', (measured_audit ''interactive'' (Fin 2001))\<lparr>timeBudget := Some (Fin 2000), overBudgetBy := Some (Fin 1)\<rparr>)])
   \<and> map_of [(''interactive'', measured_audit ''interactive'' (Fin 2000))] (audit_id (budget_audit ''interactive'' (Fin 2000)))
        = Some (measured_audit ''interactive'' (Fin 2000))
   \<and> annotateAudit_p0 [(''interactive'', measured_audit ''interactive'' (Fin 2000))] (budget_audit ''interactive'' (Fin 2000))
        \<in> set (successfulSpeedAudits_p0
             (map (annotateAudit_p0 [(''interactive'', measured_audit ''interactive'' (Fin 2000))])
                [budget_audit ''interactive'' (Fin 2000)]))"
  using C1_timing [of 0 "[(''interactive'', measured_audit ''interactive'' (Fin 2001))]"
      "''interactive''" "measured_audit ''interactive'' (Fin 2001)" "Fin 2001"
      "[''interactive'' \<mapsto> Fin 2000]" "Fin 2000"
      "[(''interactive'', (measured_audit ''interactive'' (Fin 2001))\<lparr>timeBudget := Some (Fin 2000), overBudgetBy := Some (Fin 1)\<rparr>)]"
      0 "[budget_audit ''interactive'' (Fin 2000)]" "budget_audit ''interactive'' (Fin 2000)"
      "Fin 2000" "[(''interactive'', measured_audit ''interactive'' (Fin 2000))]"
      "measured_audit ''interactive'' (Fin 2000)" "Fin 2000"
      "map (annotateAudit_p0 [(''interactive'', measured_audit ''interactive'' (Fin 2000))]) [budget_audit ''interactive'' (Fin 2000)]"]
  by (simp add: measured_audit_def budget_audit_def annotateAudit_def Let_def toNumber_def)

text \<open>
  Claim C2 (\<open>index.js\<close>). The verdict is computed as the claim says (\<open>verdict_when_reached\<close>),
  but the module as it stands does not reach it: line 68 reads \<open>configOverride\<close>, which
  nothing declares, inside the \<open>try\<close> block and before the browser is launched. The report
  of a page that is within all its budgets (measured 1000 ms against a budget of 1000 ms,
  no resource row) passes the budget check with the success message, yet the run of
  \<open>main\<close> on that page logs the \<open>ReferenceError\<close> and rejects with
  \<open>Failed to get lighthouse data\<close>.
\<close>

theorem C2_failing_run:
  "checkBudgets (timing_report 1000 []) = ([Log [(Plain, success_message)]], Inr Resolved)
   \<and> main module_globals (Some ''http://localhost'')
         (example_world (Inr (timing_report 1000 [])))
     = ([Log [(Plain, ''Requesting lighthouse data for ''), (Green, ''http://localhost'')],
         LogError (ReferenceError ''configOverride is not defined'')],
        Rejected ''Failed to get lighthouse data'')"
  by (simp add: fixtures main_def truthy_str_def caught_def Let_def checkBudgets_def
      annotateAudit_def toNumber_def isValid_def successfulSpeedAudits_def
      successfulBundleAudits_def truthy_def bundleItems_def)

text \<open>
  Claim C3 (the filter is the same in both revisions). Take a resource item whose
  over-budget fields, when present, hold what the audit engine writes there: an overage
  that is a number other than \<open>0\<close> and \<open>NaN\<close>, a descriptor that is not the empty string. The
  item is over budget (not among the successful items) exactly when its size-over-budget
  field is present or its count-over-budget field is present; with both absent it is within
  budget. The lists that the diagnostics print, which test presence, hold exactly the items
  that are over budget.
\<close>

theorem C3_presence:
  assumes "i \<in> set items"
    and "\<forall>n. sizeOverBudget i = Some n \<longrightarrow> n \<noteq> NaN \<and> n \<noteq> Fin 0"
    and "\<forall>s. countOverBudget i = Some s \<longrightarrow> s \<noteq> []"
  shows "(i \<notin> set (successfulBundleAudits items) \<longleftrightarrow>
            sizeOverBudget i \<noteq> None \<or> countOverBudget i \<noteq> None)
       \<and> (sizeOverBudget i = None \<and> countOverBudget i = None \<longrightarrow>
            i \<in> set (successfulBundleAudits items))
       \<and> (i \<notin> set (successfulBundleAudits items) \<longleftrightarrow>
            i \<in> set (failedBundleAudits items) \<or>
            i \<in> set (failedRequestCountAudits items))"
proof -
  from assms(1) have mem: "i \<in> set (successfulBundleAudits items) \<longleftrightarrow>
      \<not> truthy (sizeOverBudget i) \<and> \<not> truthy_str (countOverBudget i)"
    by (simp add: successfulBundleAudits_def)
  have num: "truthy (sizeOverBudget i) \<longleftrightarrow> sizeOverBudget i \<noteq> None"
  proof (cases "sizeOverBudget i")
    case None
    then show ?thesis by (simp add: truthy_def)
  next
    case (Some n)
    with assms(2) have "n \<noteq> NaN \<and> n \<noteq> Fin 0" by simp
    then have "truthy_num n" by (cases n) simp_all
    with Some show ?thesis by (simp add: truthy_def)
  qed
  have str: "truthy_str (countOverBudget i) \<longleftrightarrow> countOverBudget i \<noteq> None"
    using assms(3) by (cases "countOverBudget i") (simp_all add: truthy_str_def)
  from assms(1) have failed: "i \<in> set (failedBundleAudits items) \<longleftrightarrow> sizeOverBudget i \<noteq> None"
    "i \<in> set (failedRequestCountAudits items) \<longleftrightarrow> countOverBudget i \<noteq> None"
    by (simp_all add: failedBundleAudits_def failedRequestCountAudits_def)
  show ?thesis
    unfolding mem num str failed by auto
qed

text \<open>
  C3 on three rows: the row with a size overage and the row with a count descriptor are
  over budget, the row with neither is within budget.
\<close>

theorem C3_witness:
  "scripts_item \<in> set [scripts_item, images_item, styles_item]
   \<and> sizeOverBudget scripts_item = Some (Fin (50 * 1024))
   \<and> countOverBudget images_item = Some ''5 requests''
   \<and> scripts_item \<notin> set (successfulBundleAudits [scripts_item, images_item, styles_item])
   \<and> images_item \<notin> set (successfulBundleAudits [scripts_item, images_item, styles_item])
   \<and> styles_item \<in> set (successfulBundleAudits [scripts_item, images_item, styles_item])"
  using C3_presence [of scripts_item "[scripts_item, images_item, styles_item]"]
    C3_presence [of images_item "[scripts_item, images_item, styles_item]"]
    C3_presence [of styles_item "[scripts_item, images_item, styles_item]"]
  by (simp add: scripts_item_def images_item_def styles_item_def)

text \<open>
  Claim C4, as the code has it. An identifier that is budgeted but not measured is never
  over budget and does not change the verdict. In \<open>index.js\<close> the loop runs over the report:
  an identifier absent from the report is in neither list and not in the total; an audit of
  the report without a numeric measurement is left as it was and is counted both among the
  successful audits and in the total. In \<open>part_000\<close> the loop runs over the budget list: an
  entry that the report does not measure is left as it was and is counted both among the
  successful audits and in the total. In each case the verdict is the one obtained without
  the entry. (An entry that was never annotated has no \<open>overBudgetBy\<close> of its own.)
\<close>

theorem C4_skipped:
  "(speedForEach budgets speedResults = Inr speedResults' \<longrightarrow>
      (key \<notin> set (map fst speedResults) \<longrightarrow>
         key \<notin> set (map fst speedResults') \<and>
         key \<notin> set (map fst (successfulSpeedAudits speedResults')) \<and>
         key \<notin> set (map fst (failedSpeedAudits speedResults'))) \<and>
      (i < length speedResults \<and> numericValue (snd (speedResults ! i)) = None \<and>
       \<not> truthy (overBudgetBy (snd (speedResults ! i))) \<longrightarrow>
         speedResults' ! i = speedResults ! i \<and>
         speedResults' ! i \<in> set (successfulSpeedAudits speedResults') \<and>
         speedResults' ! i \<notin> set (failedSpeedAudits speedResults') \<and>
         isValid items speedResults' =
           isValid items (take i speedResults' @ drop (Suc i) speedResults')))
   \<and>
   (j < length speedAudits \<and> \<not> truthy (overBudgetBy (speedAudits ! j)) \<and>
    (map_of auditResults (audit_id (speedAudits ! j)) = None \<or>
     (\<exists>r. map_of auditResults (audit_id (speedAudits ! j)) = Some r \<and> numericValue r = None)) \<and>
    speedAudits' = map (annotateAudit_p0 auditResults) speedAudits \<longrightarrow>
      speedAudits' ! j = speedAudits ! j \<and>
      speedAudits' ! j \<in> set (successfulSpeedAudits_p0 speedAudits') \<and>
      speedAudits' ! j \<notin> set (failedSpeedAudits_p0 speedAudits') \<and>
      isValid_p0 items speedAudits' =
        isValid_p0 items (take j speedAudits' @ drop (Suc j) speedAudits'))"
proof (intro conjI impI)
  assume run: "speedForEach budgets speedResults = Inr speedResults'"
  assume "key \<notin> set (map fst speedResults)"
  with speedForEach_keys [OF run] have k: "key \<notin> fst ` set speedResults'"
    by (metis set_map)
  then show "key \<notin> set (map fst speedResults')" by simp
  from k show "key \<notin> set (map fst (successfulSpeedAudits speedResults'))"
    by (auto simp: successfulSpeedAudits_def)
  from k show "key \<notin> set (map fst (failedSpeedAudits speedResults'))"
    by (auto simp: failedSpeedAudits_def)
next
  assume run: "speedForEach budgets speedResults = Inr speedResults'"
  assume h: "i < length speedResults \<and> numericValue (snd (speedResults ! i)) = None \<and>
       \<not> truthy (overBudgetBy (snd (speedResults ! i)))"
  with speedForEach_nth [OF run, of i]
  have same: "speedResults' ! i = speedResults ! i"
    by (simp add: annotateAudit_unmeasured prod_eq_iff)
  from h speedForEach_length [OF run] have len: "i < length speedResults'" by simp
  from h same have ok: "\<not> truthy (overBudgetBy (snd (speedResults' ! i)))" by simp
  show "speedResults' ! i = speedResults ! i" by (rule same)
  show mem: "speedResults' ! i \<in> set (successfulSpeedAudits speedResults')"
    unfolding successfulSpeedAudits_def in_filter_nth [OF len]
    using ok by (simp add: case_prod_beta)
  show "speedResults' ! i \<notin> set (failedSpeedAudits speedResults')"
    unfolding failedSpeedAudits_def in_filter_nth [OF len]
    using ok by (simp add: case_prod_beta)
  show "isValid items speedResults' =
      isValid items (take i speedResults' @ drop (Suc i) speedResults')"
    by (rule isValid_remove [OF len mem])
next
  assume h: "j < length speedAudits \<and> \<not> truthy (overBudgetBy (speedAudits ! j)) \<and>
    (map_of auditResults (audit_id (speedAudits ! j)) = None \<or>
     (\<exists>r. map_of auditResults (audit_id (speedAudits ! j)) = Some r \<and> numericValue r = None)) \<and>
    speedAudits' = map (annotateAudit_p0 auditResults) speedAudits"
  then have len: "j < length speedAudits'" by simp
  from h have "annotateAudit_p0 auditResults (speedAudits ! j) = speedAudits ! j"
    by (auto simp: annotateAudit_p0_def)
  with h show same: "speedAudits' ! j = speedAudits ! j" by simp
  with h have ok: "\<not> truthy (overBudgetBy (speedAudits' ! j))" by simp
  show mem: "speedAudits' ! j \<in> set (successfulSpeedAudits_p0 speedAudits')"
    unfolding successfulSpeedAudits_p0_def in_filter_nth [OF len] by (rule ok)
  show "speedAudits' ! j \<notin> set (failedSpeedAudits_p0 speedAudits')"
    unfolding failedSpeedAudits_p0_def in_filter_nth [OF len] using ok by simp
  show "isValid_p0 items speedAudits' =
      isValid_p0 items (take j speedAudits' @ drop (Suc j) speedAudits')"
    by (rule isValid_p0_remove [OF len mem])
qed

text \<open>
  C4 as stated fails on the counts: the audit without measurement is in the numerator
  and in the denominator, in \<open>index.js\<close> (an audit of the report without \<open>numericValue\<close>) and
  in \<open>part_000\<close> (a budget entry that an empty report does not measure).
\<close>

theorem C4_counterexample:
  "speedForEach (Some [''interactive'' \<mapsto> Fin 2000])
       [(''interactive'', unmeasured_audit ''interactive'')]
     = Inr [(''interactive'', unmeasured_audit ''interactive'')]
   \<and> successfulSpeedAudits [(''interactive'', unmeasured_audit ''interactive'')]
     = [(''interactive'', unmeasured_audit ''interactive'')]
   \<and> length (map fst [(''interactive'', unmeasured_audit ''interactive'')]) = 1
   \<and> successfulSpeedAudits_p0 (map (annotateAudit_p0 []) [budget_audit ''interactive'' (Fin 2000)])
     = [budget_audit ''interactive'' (Fin 2000)]
   \<and> length (map (annotateAudit_p0 []) [budget_audit ''interactive'' (Fin 2000)]) = 1"
  by (simp add: unmeasured_audit_def budget_audit_def annotateAudit_def annotateAudit_p0_def
      successfulSpeedAudits_def successfulSpeedAudits_p0_def truthy_def)

text \<open>
  C4 on a one-audit report and a one-entry budget list.
\<close>

theorem C4_witness:
  "speedForEach (Some [''interactive'' \<mapsto> Fin 2000])
       [(''interactive'', unmeasured_audit ''interactive'')]
     = Inr [(''interactive'', unmeasured_audit ''interactive'')]
   \<and> ''speed-index'' \<notin> set (map fst [(''interactive'', unmeasured_audit ''interactive'')])
   \<and> ''speed-index'' \<notin> set (map fst (successfulSpeedAudits
         [(''interactive'', unmeasured_audit ''interactive'')]))
   \<and> [(''interactive'', unmeasured_audit ''interactive'')] ! 0
       \<in> set (successfulSpeedAudits [(''interactive'', unmeasured_audit ''interactive'')])
   \<and> map_of [] (audit_id ([budget_audit ''interactive'' (Fin 2000)] ! 0)) = (None :: audit option)
   \<and> map (annotateAudit_p0 []) [budget_audit ''interactive'' (Fin 2000)] ! 0
       \<in> set (successfulSpeedAudits_p0
             (map (annotateAudit_p0 []) [budget_audit ''interactive'' (Fin 2000)]))"
  using C4_skipped [of "Some [''interactive'' \<mapsto> Fin 2000]"
      "[(''interactive'', unmeasured_audit ''interactive'')]"
      "[(''interactive'', unmeasured_audit ''interactive'')]" "''speed-index''" 0 "[]"
      0 "[budget_audit ''interactive'' (Fin 2000)]" "[]"
      "map (annotateAudit_p0 []) [budget_audit ''interactive'' (Fin 2000)]"]
  by (simp add: unmeasured_audit_def budget_audit_def annotateAudit_def annotateAudit_p0_def
      truthy_def)

text \<open>
  Claim C5, as the code has it. In \<open>index.js\<close> every failed timing audit has its line in the
  diagnostics, and the line reads
  \<open><id>: Expected less than <threshold> ms but got <measured> ms\<close>, where the measured value
  is rounded to the nearest integer. The line of \<open>part_000\<close> reads
  \<open><id>: Expected <threshold> ms but got <measured>\<close>, with the measurement as it is.
\<close>

theorem C5_line:
  assumes "e \<in> set (failedSpeedAudits speedResults)"
  shows "Log (speedLine (snd e)) \<in> set (fst (diagnostics speedResults items))
       \<and> line_text (speedLine (snd e)) =
           audit_id (snd e) @ '': Expected less than '' @ toString (timeBudget (snd e)) @
           '' ms but got '' @ numToString (Math_round (toNumber (numericValue (snd e)))) @ '' ms''
       \<and> (\<forall>x. numericValue (snd e) = Some (Fin x) \<and> 0 \<le> x \<longrightarrow>
             numToString (Math_round (toNumber (numericValue (snd e)))) = show_nat (nat (round x)))
       \<and> line_text (speedLine_p0 a) =
           audit_id a @ '': Expected '' @ toString (timeBudget a) @
           '' ms but got '' @ toString (actualSpeed a)"
proof (intro conjI allI impI)
  show "Log (speedLine (snd e)) \<in> set (fst (diagnostics speedResults items))"
    using assms by (rule speedLine_logged)
  show "line_text (speedLine (snd e)) =
      audit_id (snd e) @ '': Expected less than '' @ toString (timeBudget (snd e)) @
      '' ms but got '' @ numToString (Math_round (toNumber (numericValue (snd e)))) @ '' ms''"
    by (simp add: speedLine_def line_text_def Let_def)
  show "line_text (speedLine_p0 a) =
      audit_id a @ '': Expected '' @ toString (timeBudget a) @
      '' ms but got '' @ toString (actualSpeed a)"
    by (simp add: speedLine_p0_def line_text_def)
next
  fix x assume h: "numericValue (snd e) = Some (Fin x) \<and> 0 \<le> x"
  then have "0 \<le> round x" by (simp add: round_def)
  then have "numToString (Fin (of_int (round x))) = show_nat (nat (round x))"
    by simp
  with h show "numToString (Math_round (toNumber (numericValue (snd e)))) = show_nat (nat (round x))"
    by (simp add: toNumber_def round_def)
qed

text \<open>
  C5 as stated fails on the wording: with a threshold of 1000 ms and a measurement of
  1500 ms, \<open>index.js\<close> prints \<open>Expected less than 1000 ms\<close>.
\<close>

theorem C5_counterexample:
  "fst (checkBudgets (timing_report 1500 [])) =
     [Log [(Red, ''----- Failed page speed budget audits ------'')],
      Log [(Green, ''first-contentful-paint''), (Plain, '': Expected less than ''),
           (Green, ''1000''), (Plain, '' ms but got ''), (Red, ''1500''), (Plain, '' ms'')]]
   \<and> line_text [(Green, ''first-contentful-paint''), (Plain, '': Expected less than ''),
           (Green, ''1000''), (Plain, '' ms but got ''), (Red, ''1500''), (Plain, '' ms'')]
       = ''first-contentful-paint: Expected less than 1000 ms but got 1500 ms''
   \<and> ''first-contentful-paint: Expected less than 1000 ms but got 1500 ms''
       \<noteq> ''first-contentful-paint: Expected 1000 ms but got 1500 ms''"
  by (simp add: fixtures checkBudgets_def annotateAudit_def Let_def toNumber_def
      isValid_def successfulSpeedAudits_def successfulBundleAudits_def truthy_def
      bundleItems_def diagnostics_eq speedSection_def failedSpeedAudits_def
      countSection_def failedRequestCountAudits_def sizeSection_def failedBundleAudits_def
      speedLine_def toString_def show_nat.simps digit_char_def line_text_def)

text \<open>
  C5 on the scenario: threshold 1000 ms, measurement 1500 ms.
\<close>

theorem C5_witness:
  "(''first-contentful-paint'',
      (measured_audit ''first-contentful-paint'' (Fin 1500))
        \<lparr>timeBudget := Some (Fin 1000), overBudgetBy := Some (Fin 500)\<rparr>)
     \<in> set (failedSpeedAudits
          [(''first-contentful-paint'',
            (measured_audit ''first-contentful-paint'' (Fin 1500))
              \<lparr>timeBudget := Some (Fin 1000), overBudgetBy := Some (Fin 500)\<rparr>)])
   \<and> line_text (speedLine ((measured_audit ''first-contentful-paint'' (Fin 1500))
        \<lparr>timeBudget := Some (Fin 1000), overBudgetBy := Some (Fin 500)\<rparr>))
     = ''first-contentful-paint: Expected less than 1000 ms but got 1500 ms''"
  using C5_line [of "(''first-contentful-paint'',
      (measured_audit ''first-contentful-paint'' (Fin 1500))
        \<lparr>timeBudget := Some (Fin 1000), overBudgetBy := Some (Fin 500)\<rparr>)"
      "[(''first-contentful-paint'',
            (measured_audit ''first-contentful-paint'' (Fin 1500))
              \<lparr>timeBudget := Some (Fin 1000), overBudgetBy := Some (Fin 500)\<rparr>)]"]
  by (simp add: measured_audit_def failedSpeedAudits_def truthy_def toString_def toNumber_def
      show_nat.simps digit_char_def)

text \<open>
  Claim C6 (\<open>index.js\<close>). Every resource item with a size-over-budget amount has its line
  in the diagnostics; the expected size printed is \<open>round((size - over) / 1024)\<close> and the
  actual size is \<open>round(size / 1024)\<close>, each followed by \<open>kb\<close>, where \<open>round\<close> takes a tie
  up. Rounding is for display: whether the item is over budget depends on the unrounded
  fields only.
\<close>

theorem C6_size:
  assumes "i \<in> set items" and "sizeOverBudget i = Some over"
  shows "Log (sizeLine i) \<in> set (fst (diagnostics speedResults items))
       \<and> sizeLine i =
           [(Green, label i), (Plain, '': Expected ''),
            (Green, numToString (Math_round (js_div_1024 (js_sub (item_size i) over))) @ ''kb''),
            (Plain, '' download size but got ''),
            (Red, numToString (Math_round (js_div_1024 (item_size i))) @ ''kb'')]
       \<and> (\<forall>x y. item_size i = Fin x \<and> over = Fin y \<longrightarrow>
             Math_round (js_div_1024 (js_sub (item_size i) over)) =
               Fin (of_int (round ((x - y) / 1024))) \<and>
             Math_round (js_div_1024 (item_size i)) = Fin (of_int (round (x / 1024))))
       \<and> (i \<in> set (successfulBundleAudits items) \<longleftrightarrow>
             \<not> truthy (Some over) \<and> \<not> truthy_str (countOverBudget i))"
proof (intro conjI allI impI)
  show "Log (sizeLine i) \<in> set (fst (diagnostics speedResults items))"
    using assms by (intro sizeLine_logged) simp_all
  show "sizeLine i =
      [(Green, label i), (Plain, '': Expected ''),
       (Green, numToString (Math_round (js_div_1024 (js_sub (item_size i) over))) @ ''kb''),
       (Plain, '' download size but got ''),
       (Red, numToString (Math_round (js_div_1024 (item_size i))) @ ''kb'')]"
    using assms(2) by (simp add: sizeLine_def toNumber_def Let_def)
  show "i \<in> set (successfulBundleAudits items) \<longleftrightarrow>
      \<not> truthy (Some over) \<and> \<not> truthy_str (countOverBudget i)"
    using assms by (simp add: successfulBundleAudits_def)
next
  fix x y assume "item_size i = Fin x \<and> over = Fin y"
  then show "Math_round (js_div_1024 (js_sub (item_size i) over)) =
      Fin (of_int (round ((x - y) / 1024)))"
    and "Math_round (js_div_1024 (item_size i)) = Fin (of_int (round (x / 1024)))"
    by (simp_all add: round_def)
qed

text \<open>
  C6 on the scenario (300 kb observed, 50 kb over) and on a tie (1.5 kb prints as 2kb).
\<close>

theorem C6_witness:
  "scripts_item \<in> set [scripts_item, tie_item]
   \<and> sizeOverBudget scripts_item = Some (Fin (50 * 1024))
   \<and> item_size scripts_item = Fin (300 * 1024)
   \<and> line_text (sizeLine scripts_item) = ''scripts: Expected 250kb download size but got 300kb''
   \<and> line_text (sizeLine tie_item) = ''fonts: Expected 1kb download size but got 2kb''"
  using C6_size [of scripts_item "[scripts_item, tie_item]" "Fin (50 * 1024)"]
    C6_size [of tie_item "[scripts_item, tie_item]" "Fin 512"]
  by (simp add: scripts_item_def tie_item_def line_text_def show_nat.simps digit_char_def)

text \<open>
  Claim C7 (\<open>index.js\<close>). For a resource item whose count-over-budget descriptor reads
  \<open><n> requests\<close>, the line printed gives as expected count the observed request count
  minus \<open>n\<close>, followed by the observed count; the line is in the diagnostics of every
  run that prints them.
\<close>

theorem C7_count:
  assumes "countOverBudget i = Some (show_nat n @ '' requests'')"
  shows "countLine i =
           Inr [(Green, label i), (Plain, '': Expected ''),
                (Green, numToString (js_sub (requestCount i) (Fin (of_nat n)))),
                (Plain, '' total number of requests but got ''),
                (Red, numToString (requestCount i))]
       \<and> (\<forall>c. requestCount i = Fin c \<longrightarrow>
             js_sub (requestCount i) (Fin (of_nat n)) = Fin (c - of_nat n))
       \<and> (i \<in> set items \<longrightarrow>
             Log (projr (countLine i)) \<in> set (fst (diagnostics speedResults items)))"
proof (intro conjI allI impI)
  show "countLine i =
      Inr [(Green, label i), (Plain, '': Expected ''),
           (Green, numToString (js_sub (requestCount i) (Fin (of_nat n)))),
           (Plain, '' total number of requests but got ''),
           (Red, numToString (requestCount i))]"
    using assms show_nat_digits [of n]
    by (simp add: countLine_def js_split_digits stringToNumber_digits decimal_value_show_nat)
  show "js_sub (requestCount i) (Fin (of_nat n)) = Fin (c - of_nat n)"
    if "requestCount i = Fin c" for c
    using that by simp
  show "Log (projr (countLine i)) \<in> set (fst (diagnostics speedResults items))"
    if "i \<in> set items"
    using that assms by (intro countLine_logged) simp_all
qed

text \<open>
  C7 on the scenario: 20 requests observed, descriptor \<open>5 requests\<close>.
\<close>

theorem C7_witness:
  "countOverBudget images_item = Some (show_nat 5 @ '' requests'')
   \<and> line_text (projr (countLine images_item)) =
       ''images: Expected 15 total number of requests but got 20''"
  using C7_count [of images_item 5]
  by (simp add: images_item_def show_nat.simps digit_char_def line_text_def)

text \<open>
  Claim C8, as the code has it. The evaluation logs nothing and reads the budgets without
  changing them, but it writes into one of its inputs. \<open>index.js\<close> assigns \<open>timeBudget\<close> and
  \<open>overBudgetBy\<close> on the audits of the report: the keys, their order and every other
  property are unchanged, and an audit without numeric measurement is left as it was.
  \<open>part_000\<close> assigns \<open>actualSpeed\<close> and \<open>overBudgetBy\<close> on the entries of the budget list:
  every other property is unchanged, and an entry that the report does not measure is left
  as it was.
\<close>

theorem C8_frame:
  "(speedForEach budgets speedResults = Inr speedResults' \<longrightarrow>
      map fst speedResults' = map fst speedResults \<and>
      map (\<lambda>(key, a). (key, a\<lparr>timeBudget := None, overBudgetBy := None\<rparr>)) speedResults' =
      map (\<lambda>(key, a). (key, a\<lparr>timeBudget := None, overBudgetBy := None\<rparr>)) speedResults \<and>
      (\<forall>i. i < length speedResults \<and> numericValue (snd (speedResults ! i)) = None \<longrightarrow>
         speedResults' ! i = speedResults ! i))
   \<and> map (\<lambda>a. a\<lparr>actualSpeed := None, overBudgetBy := None\<rparr>)
         (map (annotateAudit_p0 auditResults) speedAudits) =
       map (\<lambda>a. a\<lparr>actualSpeed := None, overBudgetBy := None\<rparr>) speedAudits
   \<and> (\<forall>j. j < length speedAudits \<and>
         (map_of auditResults (audit_id (speedAudits ! j)) = None \<or>
          (\<exists>r. map_of auditResults (audit_id (speedAudits ! j)) = Some r \<and>
               numericValue r = None)) \<longrightarrow>
         map (annotateAudit_p0 auditResults) speedAudits ! j = speedAudits ! j)"
proof (intro conjI impI allI)
  assume run: "speedForEach budgets speedResults = Inr speedResults'"
  show "map fst speedResults' = map fst speedResults"
    by (rule speedForEach_keys [OF run])
  show "map (\<lambda>(key, a). (key, a\<lparr>timeBudget := None, overBudgetBy := None\<rparr>)) speedResults' =
      map (\<lambda>(key, a). (key, a\<lparr>timeBudget := None, overBudgetBy := None\<rparr>)) speedResults"
    by (rule speedForEach_frame [OF run])
  fix i assume "i < length speedResults \<and> numericValue (snd (speedResults ! i)) = None"
  with speedForEach_nth [OF run, of i]
  show "speedResults' ! i = speedResults ! i"
    by (simp add: annotateAudit_unmeasured prod_eq_iff)
next
  show "map (\<lambda>a. a\<lparr>actualSpeed := None, overBudgetBy := None\<rparr>)
         (map (annotateAudit_p0 auditResults) speedAudits) =
       map (\<lambda>a. a\<lparr>actualSpeed := None, overBudgetBy := None\<rparr>) speedAudits"
    by (simp add: annotateAudit_p0_frame)
next
  fix j assume h: "j < length speedAudits \<and>
         (map_of auditResults (audit_id (speedAudits ! j)) = None \<or>
          (\<exists>r. map_of auditResults (audit_id (speedAudits ! j)) = Some r \<and>
               numericValue r = None))"
  then have "annotateAudit_p0 auditResults (speedAudits ! j) = speedAudits ! j"
    by (auto simp: annotateAudit_p0_def)
  with h show "map (annotateAudit_p0 auditResults) speedAudits ! j = speedAudits ! j"
    by simp
qed

text \<open>
  C8 as stated fails: after the loop the report of \<open>index.js\<close>, and the budget list of
  \<open>part_000\<close>, differ from what they were.
\<close>

theorem C8_counterexample:
  "speedForEach (speedBudgets (configSettings (timing_report 1500 [])))
       (audits (timing_report 1500 []))
     = Inr [(''first-contentful-paint'',
             (measured_audit ''first-contentful-paint'' (Fin 1500))
               \<lparr>timeBudget := Some (Fin 1000), overBudgetBy := Some (Fin 500)\<rparr>),
            (''performance-budget'', budget_table [])]
   \<and> [(''first-contentful-paint'',
             (measured_audit ''first-contentful-paint'' (Fin 1500))
               \<lparr>timeBudget := Some (Fin 1000), overBudgetBy := Some (Fin 500)\<rparr>),
            (''performance-budget'', budget_table [])]
     \<noteq> audits (timing_report 1500 [])
   \<and> map (annotateAudit_p0 (audits (timing_report 1500 [])))
         [budget_audit ''first-contentful-paint'' (Fin 1000)]
     = [(budget_audit ''first-contentful-paint'' (Fin 1000))
          \<lparr>actualSpeed := Some (Fin 1500), overBudgetBy := Some (Fin 500)\<rparr>]
   \<and> [(budget_audit ''first-contentful-paint'' (Fin 1000))
          \<lparr>actualSpeed := Some (Fin 1500), overBudgetBy := Some (Fin 500)\<rparr>]
     \<noteq> [budget_audit ''first-contentful-paint'' (Fin 1000)]"
  by (simp add: fixtures annotateAudit_def annotateAudit_p0_def Let_def toNumber_def)

text \<open>
  C8 on a report with one measured audit and the \<open>performance-budget\<close> audit.
\<close>

theorem C8_witness:
  "speedForEach (Some [''interactive'' \<mapsto> Fin 2000])
       [(''interactive'', measured_audit ''interactive'' (Fin 2001)),
        (''performance-budget'', budget_table [scripts_item])]
     = Inr [(''interactive'', (measured_audit ''interactive'' (Fin 2001))
                                \<lparr>timeBudget := Some (Fin 2000), overBudgetBy := Some (Fin 1)\<rparr>),
            (''performance-budget'', budget_table [scripts_item])]
   \<and> map fst [(''interactive'', (measured_audit ''interactive'' (Fin 2001))
                                \<lparr>timeBudget := Some (Fin 2000), overBudgetBy := Some (Fin 1)\<rparr>),
            (''performance-budget'', budget_table [scripts_item])]
     = [''interactive'', ''performance-budget'']"
  using C8_frame [of "Some [''interactive'' \<mapsto> Fin 2000]"
      "[(''interactive'', measured_audit ''interactive'' (Fin 2001)),
        (''performance-budget'', budget_table [scripts_item])]"
      "[(''interactive'', (measured_audit ''interactive'' (Fin 2001))
                                \<lparr>timeBudget := Some (Fin 2000), overBudgetBy := Some (Fin 1)\<rparr>),
            (''performance-budget'', budget_table [scripts_item])]"]
  by (simp add: measured_audit_def budget_table_def annotateAudit_def Let_def toNumber_def)

text \<open>
  Claim C9, as the code has it (both revisions). \<open>chrome.kill()\<close> is called exactly when the
  browser was launched, the configuration was read and the audit engine resolved. Whenever
  the caller receives the report, the browser was launched first, \<open>chrome.kill()\<close> was the last
  effect and it resolved. When the configuration cannot be read or the engine rejects, the
  browser that was launched is not terminated.
\<close>

theorem C9_release:
  "(launchChromeAndRunLighthouse url os w = (es, r) \<longrightarrow>
      (ChromeKill \<in> set es \<longleftrightarrow>
         (\<exists>p c data. launch w = Inr p \<and> getLightHouseConfig w = Inr c \<and>
            lighthouse w url (os\<lparr>port := Some p, opt_output := Some ''json''\<rparr>)
              (lightHouseConfig c) = Inr data)) \<and>
      ((\<exists>p. ChromeLaunched p \<in> set es) \<longleftrightarrow> (\<exists>p. launch w = Inr p)) \<and>
      (\<forall>data. r = Inr data \<longrightarrow>
         (\<exists>p. hd es = ChromeLaunched p) \<and> last es = ChromeKill \<and> kill w = None))
   \<and>
   (launchChromeAndRunLighthouse_p0 url os w = (es0, r0) \<longrightarrow>
      (ChromeKill \<in> set es0 \<longleftrightarrow>
         (\<exists>p c data. launch w = Inr p \<and> getLightHouseConfig_p0 w = Inr c \<and>
            lighthouse w url (os\<lparr>port := Some p, opt_output := Some ''json''\<rparr>)
              (lightHouseConfig c) = Inr data)) \<and>
      ((\<exists>p. ChromeLaunched p \<in> set es0) \<longleftrightarrow> (\<exists>p. launch w = Inr p)) \<and>
      (\<forall>data. r0 = Inr data \<longrightarrow>
         (\<exists>p. hd es0 = ChromeLaunched p) \<and> last es0 = ChromeKill \<and> kill w = None))"
  unfolding launchChromeAndRunLighthouse_def launchChromeAndRunLighthouse_p0_def
  using launchAndRun_effects [of "getLightHouseConfig w" url os w es r]
    launchAndRun_effects [of "getLightHouseConfig_p0 w" url os w es0 r0]
  by blast

text \<open>
  C9 as stated fails on the failure path: the engine rejects, the browser was launched and
  is never killed, and \<open>main\<close> returns with the generic failure.
\<close>

theorem C9_counterexample:
  "launchChromeAndRunLighthouse ''http://localhost'' opts
       (example_world (Inl (Failure ''engine failed'')))
     = ([ChromeLaunched 9222, LighthouseRun ''http://localhost''],
        Inl (Failure ''engine failed''))
   \<and> ChromeKill \<notin> set [ChromeLaunched 9222, LighthouseRun ''http://localhost'']
   \<and> launchChromeAndRunLighthouse_p0 ''http://localhost'' opts
       (example_world (Inl (Failure ''engine failed'')))
     = ([ChromeLaunched 9222, LighthouseRun ''http://localhost''],
        Inl (Failure ''engine failed''))
   \<and> main example_globals (Some ''http://localhost'')
       (example_world (Inl (Failure ''engine failed'')))
     = ([Log [(Plain, ''Requesting lighthouse data for ''), (Green, ''http://localhost'')],
         ChromeLaunched 9222, LighthouseRun ''http://localhost'',
         LogError (Failure ''engine failed'')],
        Rejected ''Failed to get lighthouse data'')"
  by (simp add: run_defs launchChromeAndRunLighthouse_p0_def getLightHouseConfig_p0_def
      example_world_def example_globals_def caught_def Let_def)

text \<open>
  C9 on a run in which every collaborator succeeds.
\<close>

theorem C9_witness:
  "launchChromeAndRunLighthouse ''http://localhost'' opts
       (example_world (Inr (timing_report 1000 [])))
     = ([ChromeLaunched 9222, LighthouseRun ''http://localhost'', ChromeKill],
        Inr (timing_report 1000 []))
   \<and> launchChromeAndRunLighthouse_p0 ''http://localhost'' opts
       (example_world (Inr (timing_report 1000 [])))
     = ([ChromeLaunched 9222, LighthouseRun ''http://localhost'', ChromeKill],
        Inr (timing_report 1000 []))
   \<and> ChromeKill \<in> set [ChromeLaunched 9222, LighthouseRun ''http://localhost'', ChromeKill]
   \<and> kill (example_world (Inr (timing_report 1000 []))) = None"
  using C9_release [of "''http://localhost''" opts "example_world (Inr (timing_report 1000 []))"
      "[ChromeLaunched 9222, LighthouseRun ''http://localhost'', ChromeKill]"
      "Inr (timing_report 1000 [])"
      "[ChromeLaunched 9222, LighthouseRun ''http://localhost'', ChromeKill]"
      "Inr (timing_report 1000 [])"]
  by (simp add: run_defs launchChromeAndRunLighthouse_p0_def getLightHouseConfig_p0_def
      example_world_def)

text \<open>
  Claim C10 (\<open>index.js\<close>), as the code has it. When the configuration carries a table of
  speed budgets, an audit of the report with a numeric measurement and no entry in the table
  does not make the loop throw: its \<open>timeBudget\<close> and \<open>overBudgetBy\<close> come out \<open>undefined\<close>, it is
  among the successful audits and not among the failed ones, and the verdict is the one
  obtained without it.
\<close>

theorem C10_missing_threshold:
  assumes "i < length speedResults"
    and "numericValue (snd (speedResults ! i)) = Some m"
    and "table (audit_id (snd (speedResults ! i))) = None"
  shows "\<exists>speedResults'.
           speedForEach (Some table) speedResults = Inr speedResults' \<and>
           timeBudget (snd (speedResults' ! i)) = None \<and>
           overBudgetBy (snd (speedResults' ! i)) = None \<and>
           speedResults' ! i \<in> set (successfulSpeedAudits speedResults') \<and>
           speedResults' ! i \<notin> set (failedSpeedAudits speedResults') \<and>
           isValid items speedResults' =
             isValid items (take i speedResults' @ drop (Suc i) speedResults')"
proof -
  define speedResults' where
    "speedResults' = map (\<lambda>(key, a). (key, projr (annotateAudit (Some table) a))) speedResults"
  have run: "speedForEach (Some table) speedResults = Inr speedResults'"
    by (simp add: speedResults'_def speedForEach_table)
  from assms(1) have len: "i < length speedResults'"
    by (simp add: speedResults'_def)
  from assms(1) have nth: "snd (speedResults' ! i) =
      projr (annotateAudit (Some table) (snd (speedResults ! i)))"
    by (simp add: speedResults'_def case_prod_beta)
  from assms(2,3) have tb: "timeBudget (snd (speedResults' ! i)) = None"
    and ob: "overBudgetBy (snd (speedResults' ! i)) = None"
    by (simp_all add: nth annotateAudit_table toNumber_def js_sub_NaN)
  have mem: "speedResults' ! i \<in> set (successfulSpeedAudits speedResults')"
    unfolding successfulSpeedAudits_def in_filter_nth [OF len]
    by (simp add: case_prod_beta ob truthy_def)
  have nmem: "speedResults' ! i \<notin> set (failedSpeedAudits speedResults')"
    unfolding failedSpeedAudits_def in_filter_nth [OF len]
    by (simp add: case_prod_beta ob truthy_def)
  from run tb ob mem nmem isValid_remove [OF len mem, of items]
  show ?thesis by blast
qed

text \<open>
  C10 as stated fails when the table itself is missing: no identifier has a threshold, the
  first measured audit makes the loop throw, and the run is rejected although nothing is
  over budget.
\<close>

theorem C10_counterexample:
  "checkBudgets ((timing_report 900 [])\<lparr>configSettings := \<lparr>speedBudgets = None\<rparr>\<rparr>)
     = ([], Inl (TypeError ''speedBudgets is undefined''))
   \<and> main example_globals (Some ''http://localhost'')
       (example_world (Inr ((timing_report 900 [])\<lparr>configSettings := \<lparr>speedBudgets = None\<rparr>\<rparr>)))
     = ([Log [(Plain, ''Requesting lighthouse data for ''), (Green, ''http://localhost'')],
         ChromeLaunched 9222, LighthouseRun ''http://localhost'', ChromeKill,
         LogError (TypeError ''speedBudgets is undefined'')],
        Rejected ''Failed to get lighthouse data'')"
  by (simp add: run_defs fixtures checkBudgets_def annotateAudit_def caught_def Let_def)

text \<open>
  C10 on a measured audit whose identifier is not in the table.
\<close>

theorem C10_witness:
  "numericValue (snd ([(''speed-index'', measured_audit ''speed-index'' (Fin 4000))] ! 0))
     = Some (Fin 4000)
   \<and> [''interactive'' \<mapsto> Fin 2000] (audit_id (snd
        ([(''speed-index'', measured_audit ''speed-index'' (Fin 4000))] ! 0))) = None
   \<and> speedForEach (Some [''interactive'' \<mapsto> Fin 2000])
        [(''speed-index'', measured_audit ''speed-index'' (Fin 4000))]
     = Inr [(''speed-index'', measured_audit ''speed-index'' (Fin 4000))]
   \<and> successfulSpeedAudits [(''speed-index'', measured_audit ''speed-index'' (Fin 4000))]
     = [(''speed-index'', measured_audit ''speed-index'' (Fin 4000))]"
  using C10_missing_threshold [of 0 "[(''speed-index'', measured_audit ''speed-index'' (Fin 4000))]"
      "Fin 4000" "[''interactive'' \<mapsto> Fin 2000]" "[]"]
  by (simp add: measured_audit_def annotateAudit_def Let_def toNumber_def
      successfulSpeedAudits_def truthy_def)

end
